theory Spec2Isabelle
  imports Main
begin

section \<open>Data model (domain/models.go, saboteur/fly\_saboteur.go)\<close>

text \<open>
  \<^verbatim>\<open>time.Duration\<close> is a signed count of nanoseconds. The code only compares durations
  with zero and with each other and stores constants, so no arithmetic can overflow and
  the values are kept as integers.
\<close>

type_synonym duration = int

definition Second :: duration where
  "Second = 1000000000"

record HTTPProbe =
  h_URL :: string
  h_Method :: string
  h_ExpectedStatus :: int
  h_Headers :: "string \<rightharpoonup> string"

text \<open>The field \<^verbatim>\<open>HTTP *HTTPProbe\<close> is a pointer that may be nil: an option.\<close>

record Probe =
  p_Name :: string
  p_Type :: string
  p_HTTP :: "HTTPProbe option"
  p_Timeout :: duration

record SteadyState =
  Probes :: "Probe list"

record Selector =
  App :: string

record Scenario =
  s_Type :: string
  s_Selector :: Selector
  s_Duration :: duration
  s_Interval :: duration

record Experiment =
  e_Name :: string
  e_Description :: string
  e_SteadyState :: SteadyState
  e_Scenario :: Scenario

record Target =
  t_ID :: string
  t_Name :: string
  t_State :: string
  t_Region :: string
  t_Metadata :: "string \<rightharpoonup> string"

text \<open>
  Every \<^verbatim>\<open>fmt.Errorf\<close> of the three packages is a constructor; \<^verbatim>\<open>%w\<close> wrapping keeps
  the wrapped error as an argument. Errors that come out of the Go standard library
  (request construction, transport, JSON decoding) are opaque constructors.
\<close>

datatype err =
    ErrUnsupportedProbeType string
  | ErrHTTPConfigMissing
  | ErrCreatingRequest
  | ErrExecutingRequest
  | ErrUnexpectedStatus int int
  | ErrProbeFailed string err
  | ErrProbesFailed "err list"
  | ErrSteadyStateFailed err
  | ErrScenarioFailed err
  | ErrSteadyStateFailedAfterChaos err
  | ErrListingTargets err
  | ErrSteadyStateLost err
  | ErrUnsupportedScenarioType string
  | ErrNoTargetsAvailable
  | ErrRestartingMachine string err
  | ErrUnexpectedStatusCode int string
  | ErrDecodingResponse
  | ErrNoEligibleTargets string
  | ErrExperimentNameRequired
  | ErrAtLeastOneProbe
  | ErrProbeIndex nat err
  | ErrScenarioInvalid err
  | ErrProbeNameRequired
  | ErrOnlyHTTPSupported
  | ErrHTTPConfigRequired
  | ErrHTTPURLRequired
  | ErrOnlyRestartRandom
  | ErrAppSelectorRequired
  | ErrPositiveDuration
  | ErrPositiveInterval
  | ErrIntervalGreater
  | ErrProvider string

section \<open>Configuration validation (domain/models.go)\<close>

text \<open>
  \<^verbatim>\<open>Probe.Validate\<close> has a pointer receiver and writes the defaults into the probe. The
  model returns the error (\<open>None\<close> is Go's nil) with the probe as the call leaves it.
  All four checks come before the first write, so a failing call leaves the probe as it
  was.
\<close>

definition Probe_Validate :: "Probe \<Rightarrow> err option \<times> Probe" where
  "Probe_Validate p =
     (if p_Name p = [] then (Some ErrProbeNameRequired, p)
      else if p_Type p \<noteq> ''http'' then (Some ErrOnlyHTTPSupported, p)
      else case p_HTTP p of
        None \<Rightarrow> (Some ErrHTTPConfigRequired, p)
      | Some h \<Rightarrow>
          if h_URL h = [] then (Some ErrHTTPURLRequired, p)
          else
            let h1 = (if h_Method h = [] then h\<lparr>h_Method := ''GET''\<rparr> else h);
                h2 = (if h_ExpectedStatus h1 = 0 then h1\<lparr>h_ExpectedStatus := 200\<rparr> else h1);
                p1 = p\<lparr>p_HTTP := Some h2\<rparr>;
                p2 = (if p_Timeout p1 = 0 then p1\<lparr>p_Timeout := 30 * Second\<rparr> else p1)
            in (None, p2))"

definition Scenario_Validate :: "Scenario \<Rightarrow> err option" where
  "Scenario_Validate s =
     (if s_Type s \<noteq> ''restart_random'' then Some ErrOnlyRestartRandom
      else if App (s_Selector s) = [] then Some ErrAppSelectorRequired
      else if s_Duration s \<le> 0 then Some ErrPositiveDuration
      else if s_Interval s \<le> 0 then Some ErrPositiveInterval
      else if s_Interval s > s_Duration s then Some ErrIntervalGreater
      else None)"

text \<open>
  The loop of \<^verbatim>\<open>Experiment.Validate\<close> is \<^verbatim>\<open>for i, probe := range Probes\<close>: \<^verbatim>\<open>probe\<close> is a
  copy of the slice element, and \<^verbatim>\<open>probe.Validate()\<close> works on that copy. What it writes
  through the pointer \<^verbatim>\<open>HTTP\<close> reaches the experiment; what it writes into the value field
  \<^verbatim>\<open>Timeout\<close> stays in the copy. \<open>validate_probes i ps\<close> returns the error and the slice as
  the loop leaves it; the probes are taken to own their \<^verbatim>\<open>HTTPProbe\<close> (no two share one
  pointer), as the YAML decoder builds them.
\<close>

fun validate_probes :: "nat \<Rightarrow> Probe list \<Rightarrow> err option \<times> Probe list" where
  "validate_probes i [] = (None, [])"
| "validate_probes i (probe # rest) =
     (case Probe_Validate probe of
        (Some e, _) \<Rightarrow> (Some (ErrProbeIndex i e), probe # rest)
      | (None, probe') \<Rightarrow>
          (case validate_probes (Suc i) rest of
             (r, rest') \<Rightarrow> (r, probe\<lparr>p_HTTP := p_HTTP probe'\<rparr> # rest')))"

definition Experiment_Validate :: "Experiment \<Rightarrow> err option \<times> Experiment" where
  "Experiment_Validate e =
     (if e_Name e = [] then (Some ErrExperimentNameRequired, e)
      else if length (Probes (e_SteadyState e)) = 0 then (Some ErrAtLeastOneProbe, e)
      else case validate_probes 0 (Probes (e_SteadyState e)) of
        (Some err, ps) \<Rightarrow> (Some err, e\<lparr>e_SteadyState := \<lparr>Probes = ps\<rparr>\<rparr>)
      | (None, ps) \<Rightarrow>
          let e' = e\<lparr>e_SteadyState := \<lparr>Probes = ps\<rparr>\<rparr> in
          (case Scenario_Validate (e_Scenario e) of
             Some err \<Rightarrow> (Some (ErrScenarioInvalid err), e')
           | None \<Rightarrow> (None, e')))"

section \<open>The outside world\<close>

text \<open>
  A context is the caller's or one derived from it with a timeout. The contexts are
  handed to every outside call as the code hands them; what they do to the call is the
  world's answer.
\<close>

datatype "context" = CallerCtx | WithTimeout "context" duration

datatype http_result = TransportError | Status int

text \<open>
  Why \<^verbatim>\<open>durationCtx.Done()\<close> became ready: the timeout of \<^verbatim>\<open>context.WithTimeout\<close> elapsed, or
  the parent context was cancelled (\<^verbatim>\<open>main\<close> cancels it on SIGINT and SIGTERM). The
  \<^verbatim>\<open>select\<close> of the scenario loop receives from that channel or from the ticker.
\<close>

datatype done_reason = DeadlineExceeded | Canceled

datatype select_ev = CtxDone done_reason | TickFired

text \<open>
  What the program does to the world, in order: the lines it logs and the calls it makes.
\<close>

datatype event =
    LogStartingExperiment string
  | LogDescription string
  | LogValidatingSteadyState
  | LogSteadyStateValidated
  | LogValidatingAfterChaos
  | LogSteadyStateMaintained
  | LogExperimentCompleted
  | LogProbePassed string
  | LogExecutingScenario string duration duration
  | LogFoundTargets nat
  | LogDurationCompleted nat
  | LogAttackFailed err
  | LogValidatingAfterAttack
  | LogAttacking string string
  | LogSuccessfullyAttacked string
  | HTTPDo string
  | CallListTargets string
  | CallRestartMachine string string
  | Sleep duration
  | Select select_ev

text \<open>
  The world answers each outside call. \<open>calls\<close> counts the calls made so far and indexes
  the answers, so the same request may be answered differently each time; \<open>trace\<close> is
  the list of events so far.
\<close>

record world =
  calls :: nat
  trace :: "event list"

definition emit :: "event list \<Rightarrow> world \<Rightarrow> world" where
  "emit evs w = w\<lparr>trace := trace w @ evs\<rparr>"

definition tick :: "nat \<Rightarrow> world \<Rightarrow> world" where
  "tick n w = w\<lparr>calls := calls w + n\<rparr>"

text \<open>
  \<open>new_request_ok method url\<close>: whether \<^verbatim>\<open>http.NewRequestWithContext\<close> accepts the method and
  the URL. \<open>client_do k ctx p\<close>: the outcome of \<^verbatim>\<open>client.Do\<close> for the request of probe \<open>p\<close>
  as call number \<open>k\<close> (a transport error covers timeouts and cancelled contexts).
  \<open>rand_src k\<close>: the random source read by \<^verbatim>\<open>rand.Intn\<close> at call \<open>k\<close>.
\<close>

record env =
  new_request_ok :: "string \<Rightarrow> string \<Rightarrow> bool"
  client_do :: "nat \<Rightarrow> context \<Rightarrow> Probe \<Rightarrow> http_result"
  rand_src :: "nat \<Rightarrow> nat"

text \<open>The interface \<^verbatim>\<open>saboteur.Saboteur\<close>; the first argument is the call number.\<close>

record Saboteur =
  ListTargets :: "nat \<Rightarrow> context \<Rightarrow> string \<Rightarrow> err + Target list"
  RestartMachine :: "nat \<Rightarrow> context \<Rightarrow> string \<Rightarrow> string \<Rightarrow> err option"

section \<open>Probes and steady-state validation (runner)\<close>

text \<open>
  \<^verbatim>\<open>executeProbe\<close>: the events of the call and the error it returns.
\<close>

definition executeProbe :: "env \<Rightarrow> nat \<Rightarrow> context \<Rightarrow> Probe \<Rightarrow> event list \<times> err option" where
  "executeProbe E k ctx probe =
     (if p_Type probe \<noteq> ''http'' then ([], Some (ErrUnsupportedProbeType (p_Type probe)))
      else case p_HTTP probe of
        None \<Rightarrow> ([], Some ErrHTTPConfigMissing)
      | Some httpProbe \<Rightarrow>
          if \<not> new_request_ok E (h_Method httpProbe) (h_URL httpProbe)
          then ([], Some ErrCreatingRequest)
          else (case client_do E k ctx probe of
                  TransportError \<Rightarrow> ([HTTPDo (p_Name probe)], Some ErrExecutingRequest)
                | Status code \<Rightarrow>
                    if code \<noteq> h_ExpectedStatus httpProbe
                    then ([HTTPDo (p_Name probe)],
                          Some (ErrUnexpectedStatus code (h_ExpectedStatus httpProbe)))
                    else ([HTTPDo (p_Name probe)], None)))"

text \<open>The body of the goroutine that \<^verbatim>\<open>RunProbes\<close> starts for one probe.\<close>

definition probe_task :: "env \<Rightarrow> context \<Rightarrow> nat \<times> Probe \<Rightarrow> event list \<times> err option" where
  "probe_task E ctx kp =
     (case executeProbe E (fst kp) ctx (snd kp) of
        (evs, Some e) \<Rightarrow> (evs, Some (ErrProbeFailed (p_Name (snd kp)) e))
      | (evs, None) \<Rightarrow> (evs @ [LogProbePassed (p_Name (snd kp))], None))"

text \<open>
  \<^verbatim>\<open>RunProbes\<close> starts one goroutine per probe, waits for all of them, closes the channel
  and collects what was sent. Probe number \<open>i\<close> is call \<open>calls w + i\<close>. The order in which
  the goroutines log and send is the scheduler's; the model lists them in the order of
  the probes, and the theorems below speak of membership only.
\<close>

definition RunProbes :: "env \<Rightarrow> context \<Rightarrow> Probe list \<Rightarrow> world \<Rightarrow> err option \<times> world" where
  "RunProbes E ctx probes w =
     (let results = map (probe_task E ctx) (zip [calls w ..< calls w + length probes] probes);
          probeErrors = List.map_filter snd results;
          w' = tick (length probes) (emit (concat (map fst results)) w)
      in if length probeErrors > 0 then (Some (ErrProbesFailed probeErrors), w')
         else (None, w'))"

section \<open>The Fly.io saboteur (saboteur/fly\_saboteur.go)\<close>

record FlySaboteur =
  apiToken :: string
  baseURL :: string

text \<open>One element of the JSON array that the machines API returns.\<close>

record machine =
  m_ID :: string
  m_Name :: string
  m_State :: string
  m_Region :: string

datatype api_response = ApiTransportError | ApiResponse int string

text \<open>
  The HTTP side of the saboteur: whether a request can be built, the response to call
  number \<open>k\<close> (status code and body), and the JSON decoder (\<open>None\<close> is a decoding error).
\<close>

record fly_api =
  api_request_ok :: "string \<Rightarrow> string \<Rightarrow> bool"
  api_do :: "nat \<Rightarrow> context \<Rightarrow> string \<Rightarrow> string \<Rightarrow> api_response"
  decode_machines :: "string \<Rightarrow> machine list option"

definition eligible :: "machine \<Rightarrow> bool" where
  "eligible m = (\<not> (m_State m \<noteq> ''started'' \<and> m_State m \<noteq> ''running''))"

definition to_target :: "machine \<Rightarrow> Target" where
  "to_target m =
     \<lparr>t_ID = m_ID m, t_Name = m_Name m, t_State = m_State m, t_Region = m_Region m,
      t_Metadata = Map.empty\<rparr>"

definition Fly_ListTargets ::
  "FlySaboteur \<Rightarrow> fly_api \<Rightarrow> nat \<Rightarrow> context \<Rightarrow> string \<Rightarrow> err + Target list" where
  "Fly_ListTargets f A k ctx app =
     (let url = baseURL f @ ''/apps/'' @ app @ ''/machines'' in
      if \<not> api_request_ok A ''GET'' url then Inl ErrCreatingRequest
      else case api_do A k ctx ''GET'' url of
        ApiTransportError \<Rightarrow> Inl ErrExecutingRequest
      | ApiResponse code body \<Rightarrow>
          if code \<noteq> 200 then Inl (ErrUnexpectedStatusCode code body)
          else (case decode_machines A body of
                  None \<Rightarrow> Inl ErrDecodingResponse
                | Some machines \<Rightarrow>
                    let targets = map to_target (filter eligible machines) in
                    if length targets = 0 then Inl (ErrNoEligibleTargets app)
                    else Inr targets))"

definition Fly_RestartMachine ::
  "FlySaboteur \<Rightarrow> fly_api \<Rightarrow> nat \<Rightarrow> context \<Rightarrow> string \<Rightarrow> string \<Rightarrow> err option" where
  "Fly_RestartMachine f A k ctx app machineID =
     (let url = baseURL f @ ''/apps/'' @ app @ ''/machines/'' @ machineID @ ''/restart'' in
      if \<not> api_request_ok A ''POST'' url then Some ErrCreatingRequest
      else case api_do A k ctx ''POST'' url of
        ApiTransportError \<Rightarrow> Some ErrExecutingRequest
      | ApiResponse code body \<Rightarrow>
          if code \<noteq> 200 \<and> code \<noteq> 202 then Some (ErrUnexpectedStatusCode code body)
          else None)"

text \<open>\<^verbatim>\<open>FlySaboteur\<close> as an implementation of the interface.\<close>

definition fly :: "FlySaboteur \<Rightarrow> fly_api \<Rightarrow> Saboteur" where
  "fly f A = \<lparr>ListTargets = Fly_ListTargets f A, RestartMachine = Fly_RestartMachine f A\<rparr>"

section \<open>Attacks, the scenario loop and the experiment (runner)\<close>

text \<open>
  \<^verbatim>\<open>executeAttack\<close>. \<^verbatim>\<open>rand.Intn(n)\<close> is the random source reduced below \<open>n\<close>; the index is
  in range because the empty snapshot returned before. The settle delay
  \<^verbatim>\<open>time.Sleep(2 * time.Second)\<close> is the event \<open>Sleep\<close>.
\<close>

definition executeAttack ::
  "env \<Rightarrow> Saboteur \<Rightarrow> context \<Rightarrow> Scenario \<Rightarrow> Target list \<Rightarrow> world \<Rightarrow> err option \<times> world" where
  "executeAttack E S ctx scenario targets w =
     (if s_Type scenario \<noteq> ''restart_random''
      then (Some (ErrUnsupportedScenarioType (s_Type scenario)), w)
      else if length targets = 0 then (Some ErrNoTargetsAvailable, w)
      else
        let target = targets ! (rand_src E (calls w) mod length targets);
            w1 = emit [LogAttacking (t_ID target) (t_Name target),
                       CallRestartMachine (App (s_Selector scenario)) (t_ID target)] (tick 1 w)
        in case RestartMachine S (calls w1) ctx (App (s_Selector scenario)) (t_ID target) of
             Some e \<Rightarrow> (Some (ErrRestartingMachine (t_ID target) e), tick 1 w1)
           | None \<Rightarrow>
               (None, emit [LogSuccessfullyAttacked (t_ID target), Sleep (2 * Second)]
                        (tick 1 w1)))"

text \<open>
  One pass through the body of \<^verbatim>\<open>for { select { ... } }\<close> in \<^verbatim>\<open>executeScenario\<close>, for what the
  \<^verbatim>\<open>select\<close> received: \<open>Inl\<close> is a \<^verbatim>\<open>return\<close>, \<open>Inr\<close> goes round again (the \<^verbatim>\<open>continue\<close> after
  a failed attack, or the end of the body) with the new \<^verbatim>\<open>attackCount\<close>.
  \<^verbatim>\<open>attackCount\<close> is a Go \<^verbatim>\<open>int\<close> that is only logged; it counts one per tick and cannot
  reach \<open>2^63\<close>, so it is a natural number here.
\<close>

fun loop_body ::
  "env \<Rightarrow> Saboteur \<Rightarrow> context \<Rightarrow> Experiment \<Rightarrow> Target list \<Rightarrow> select_ev \<Rightarrow> nat \<Rightarrow> world
   \<Rightarrow> (err option \<times> world) + (nat \<times> world)" where
  "loop_body E S durationCtx experiment targets (CtxDone r) attackCount w =
     Inl (None, emit [Select (CtxDone r), LogDurationCompleted attackCount] w)"
| "loop_body E S durationCtx experiment targets TickFired attackCount w =
     (case executeAttack E S durationCtx (e_Scenario experiment) targets
             (emit [Select TickFired] w) of
        (Some e, w1) \<Rightarrow> Inr (attackCount, emit [LogAttackFailed e] w1)
      | (None, w1) \<Rightarrow>
          (case RunProbes E durationCtx (Probes (e_SteadyState experiment))
                  (emit [LogValidatingAfterAttack] w1) of
             (Some e, w2) \<Rightarrow> Inl (Some (ErrSteadyStateLost e), w2)
           | (None, w2) \<Rightarrow> Inr (attackCount + 1, w2)))"

text \<open>
  The loop. Its list argument is what the successive \<^verbatim>\<open>select\<close> statements receive; when
  the list is used up no channel becomes ready any more and the loop blocks for ever
  (\<open>None\<close>).
\<close>

fun scenario_loop ::
  "env \<Rightarrow> Saboteur \<Rightarrow> context \<Rightarrow> Experiment \<Rightarrow> Target list \<Rightarrow> select_ev list \<Rightarrow> nat \<Rightarrow> world
   \<Rightarrow> (err option \<times> world) option" where
  "scenario_loop E S durationCtx experiment targets [] attackCount w = None"
| "scenario_loop E S durationCtx experiment targets (ev # sel) attackCount w =
     (case loop_body E S durationCtx experiment targets ev attackCount w of
        Inl r \<Rightarrow> Some r
      | Inr (attackCount', w') \<Rightarrow>
          scenario_loop E S durationCtx experiment targets sel attackCount' w')"

text \<open>
  A call returns an error value (\<open>None\<close> is nil) or panics. The one panic on these paths
  is \<^verbatim>\<open>time.NewTicker\<close> with a non-positive interval.
\<close>

datatype outcome = Return "err option" | Panic string

definition executeScenario ::
  "env \<Rightarrow> Saboteur \<Rightarrow> context \<Rightarrow> Experiment \<Rightarrow> select_ev list \<Rightarrow> world
   \<Rightarrow> (outcome \<times> world) option" where
  "executeScenario E S ctx experiment sel w =
     (let scenario = e_Scenario experiment;
          w1 = emit [LogExecutingScenario (s_Type scenario) (s_Duration scenario)
                       (s_Interval scenario),
                     CallListTargets (App (s_Selector scenario))] w
      in case ListTargets S (calls w1) ctx (App (s_Selector scenario)) of
           Inl e \<Rightarrow> Some (Return (Some (ErrListingTargets e)), tick 1 w1)
         | Inr targets \<Rightarrow>
             let w2 = emit [LogFoundTargets (length targets)] (tick 1 w1) in
             if s_Interval scenario \<le> 0
             then Some (Panic ''non-positive interval for NewTicker'', w2)
             else (case scenario_loop E S (WithTimeout ctx (s_Duration scenario)) experiment
                          targets sel 0 w2 of
                     None \<Rightarrow> None
                   | Some (r, w3) \<Rightarrow> Some (Return r, w3)))"

definition RunExperiment ::
  "env \<Rightarrow> Saboteur \<Rightarrow> context \<Rightarrow> Experiment \<Rightarrow> select_ev list \<Rightarrow> world
   \<Rightarrow> (outcome \<times> world) option" where
  "RunExperiment E S ctx experiment sel w =
     (let probes = Probes (e_SteadyState experiment);
          w1 = emit [LogStartingExperiment (e_Name experiment),
                     LogDescription (e_Description experiment),
                     LogValidatingSteadyState] w
      in case RunProbes E ctx probes w1 of
           (Some e, w2) \<Rightarrow> Some (Return (Some (ErrSteadyStateFailed e)), w2)
         | (None, w2) \<Rightarrow>
             (case executeScenario E S ctx experiment sel (emit [LogSteadyStateValidated] w2) of
                None \<Rightarrow> None
              | Some (Panic m, w3) \<Rightarrow> Some (Panic m, w3)
              | Some (Return (Some e), w3) \<Rightarrow> Some (Return (Some (ErrScenarioFailed e)), w3)
              | Some (Return None, w3) \<Rightarrow>
                  (case RunProbes E ctx probes (emit [LogValidatingAfterChaos] w3) of
                     (Some e, w4) \<Rightarrow>
                       Some (Return (Some (ErrSteadyStateFailedAfterChaos e)), w4)
                   | (None, w4) \<Rightarrow>
                       Some (Return None,
                             emit [LogSteadyStateMaintained, LogExperimentCompleted] w4))))"

section \<open>Notions used in the statements\<close>

text \<open>
  The state of the loop (\<^verbatim>\<open>attackCount\<close> and the world) after it has gone through a list
  of receives without returning; \<open>None\<close> when it returned on the way.
\<close>

fun loop_state ::
  "env \<Rightarrow> Saboteur \<Rightarrow> context \<Rightarrow> Experiment \<Rightarrow> Target list \<Rightarrow> select_ev list \<Rightarrow> nat \<Rightarrow> world
   \<Rightarrow> (nat \<times> world) option" where
  "loop_state E S durationCtx experiment targets [] attackCount w = Some (attackCount, w)"
| "loop_state E S durationCtx experiment targets (ev # sel) attackCount w =
     (case loop_body E S durationCtx experiment targets ev attackCount w of
        Inl r \<Rightarrow> None
      | Inr (attackCount', w') \<Rightarrow>
          loop_state E S durationCtx experiment targets sel attackCount' w')"

text \<open>The events a probe makes: its HTTP request and the line that it passed.\<close>

definition probe_event :: "event \<Rightarrow> bool" where
  "probe_event x = (case x of HTTPDo n \<Rightarrow> True | LogProbePassed n \<Rightarrow> True | _ \<Rightarrow> False)"

text \<open>
  The events \<^verbatim>\<open>executeScenario\<close> can make: all but the seven lines that \<^verbatim>\<open>RunExperiment\<close> logs
  itself.
\<close>

definition scenario_event :: "event \<Rightarrow> bool" where
  "scenario_event x =
     (case x of
        LogStartingExperiment n \<Rightarrow> False
      | LogDescription d \<Rightarrow> False
      | LogValidatingSteadyState \<Rightarrow> False
      | LogSteadyStateValidated \<Rightarrow> False
      | LogValidatingAfterChaos \<Rightarrow> False
      | LogSteadyStateMaintained \<Rightarrow> False
      | LogExperimentCompleted \<Rightarrow> False
      | _ \<Rightarrow> True)"

text \<open>The world one pass of the loop body leaves.\<close>

definition result_world :: "(err option \<times> world) + (nat \<times> world) \<Rightarrow> world" where
  "result_world r = (case r of Inl (e, w) \<Rightarrow> w | Inr (n, w) \<Rightarrow> w)"

section \<open>Example inputs\<close>

text \<open>Concrete probes, worlds and experiments on which the theorems below are run.\<close>

definition probe_ok :: Probe where
  "probe_ok = \<lparr>p_Name = ''ok'', p_Type = ''http'',
      p_HTTP = Some \<lparr>h_URL = ''http://app/ok'', h_Method = ''GET'', h_ExpectedStatus = 200,
                      h_Headers = Map.empty\<rparr>,
      p_Timeout = 5 * Second\<rparr>"

definition probe_down :: Probe where
  "probe_down = \<lparr>p_Name = ''down'', p_Type = ''http'',
      p_HTTP = Some \<lparr>h_URL = ''http://app/down'', h_Method = ''GET'', h_ExpectedStatus = 200,
                      h_Headers = Map.empty\<rparr>,
      p_Timeout = 5 * Second\<rparr>"

definition probe_ftp :: Probe where
  "probe_ftp = \<lparr>p_Name = ''ftp'', p_Type = ''ftp'', p_HTTP = None, p_Timeout = 5 * Second\<rparr>"

definition probe_bare :: Probe where
  "probe_bare = \<lparr>p_Name = ''bare'', p_Type = ''http'',
      p_HTTP = Some \<lparr>h_URL = ''http://app/bare'', h_Method = [], h_ExpectedStatus = 0,
                      h_Headers = Map.empty\<rparr>,
      p_Timeout = 0\<rparr>"

definition env0 :: env where
  "env0 = \<lparr>new_request_ok = (\<lambda>method url. True),
            client_do = (\<lambda>k ctx p. if p_Name p = ''down'' then Status 500 else Status 200),
            rand_src = (\<lambda>k. k)\<rparr>"

definition w0 :: world where
  "w0 = \<lparr>calls = 0, trace = []\<rparr>"

definition scenario0 :: Scenario where
  "scenario0 = \<lparr>s_Type = ''restart_random'', s_Selector = \<lparr>App = ''shop''\<rparr>,
                 s_Duration = 5 * Second, s_Interval = 2 * Second\<rparr>"

definition exp_noprobes :: Experiment where
  "exp_noprobes = \<lparr>e_Name = ''demo'', e_Description = ''no probes'',
                    e_SteadyState = \<lparr>Probes = []\<rparr>, e_Scenario = scenario0\<rparr>"

definition target_a :: Target where
  "target_a = \<lparr>t_ID = ''m1'', t_Name = ''web-1'', t_State = ''started'', t_Region = ''ams'',
               t_Metadata = Map.empty\<rparr>"

definition sab0 :: Saboteur where
  "sab0 = \<lparr>ListTargets = (\<lambda>k ctx app. Inr [target_a]),
            RestartMachine = (\<lambda>k ctx app machineID. None)\<rparr>"

definition sab_gone :: Saboteur where
  "sab_gone = \<lparr>ListTargets = (\<lambda>k ctx app. Inr [target_a]),
               RestartMachine = (\<lambda>k ctx app machineID. Some (ErrUnexpectedStatusCode 404 ''gone''))\<rparr>"

definition exp0 :: Experiment where
  "exp0 = \<lparr>e_Name = ''demo'', e_Description = ''restart one machine'',
            e_SteadyState = \<lparr>Probes = [probe_ok]\<rparr>, e_Scenario = scenario0\<rparr>"

definition exp_down :: Experiment where
  "exp_down = \<lparr>e_Name = ''demo'', e_Description = ''a probe is down'',
            e_SteadyState = \<lparr>Probes = [probe_ok, probe_down]\<rparr>, e_Scenario = scenario0\<rparr>"

definition exp_foo :: Experiment where
  "exp_foo = \<lparr>e_Name = ''demo'', e_Description = ''unknown scenario type'',
            e_SteadyState = \<lparr>Probes = [probe_ok]\<rparr>,
            e_Scenario = scenario0\<lparr>s_Type := ''foo''\<rparr>\<rparr>"

definition env_regress :: env where
  "env_regress = \<lparr>new_request_ok = (\<lambda>method url. True),
            client_do = (\<lambda>k ctx p. if k = 0 then Status 200 else Status 500),
            rand_src = (\<lambda>k. k)\<rparr>"

definition fly0 :: FlySaboteur where
  "fly0 = \<lparr>apiToken = ''token'', baseURL = ''https://api.machines.dev/v1''\<rparr>"

definition machine_stopped :: machine where
  "machine_stopped = \<lparr>m_ID = ''m2'', m_Name = ''web-2'', m_State = ''stopped'', m_Region = ''ams''\<rparr>"

definition api_stopped :: fly_api where
  "api_stopped = \<lparr>api_request_ok = (\<lambda>method url. True),
                   api_do = (\<lambda>k ctx method url. ApiResponse 200 ''[{...}]''),
                   decode_machines = (\<lambda>body. Some [machine_stopped])\<rparr>"

section \<open>Basic facts\<close>

lemma trace_emit [simp]: "trace (emit evs w) = trace w @ evs"
  by (simp add: emit_def)

lemma calls_emit [simp]: "calls (emit evs w) = calls w"
  by (simp add: emit_def)

lemma trace_tick [simp]: "trace (tick n w) = trace w"
  by (simp add: tick_def)

lemma calls_tick [simp]: "calls (tick n w) = calls w + n"
  by (simp add: tick_def)

lemma RunProbes_empty: "RunProbes E ctx [] w = (None, w)"
  by (simp add: RunProbes_def emit_def tick_def List.map_filter_simps)

lemma fst_RunProbes:
  "fst (RunProbes E ctx probes w) =
     (let errs = List.map_filter snd (map (probe_task E ctx) (zip [calls w ..< calls w + length probes] probes))
      in if errs = [] then None else Some (ErrProbesFailed errs))"
  by (auto simp: RunProbes_def Let_def)

lemma trace_RunProbes:
  "trace (snd (RunProbes E ctx probes w)) =
     trace w @ concat (map fst (map (probe_task E ctx) (zip [calls w ..< calls w + length probes] probes)))"
  by (simp add: RunProbes_def Let_def)

lemma calls_RunProbes: "calls (snd (RunProbes E ctx probes w)) = calls w + length probes"
  by (simp add: RunProbes_def Let_def)

lemma snd_probe_task:
  "snd (probe_task E ctx (k, p)) = map_option (ErrProbeFailed (p_Name p)) (snd (executeProbe E k ctx p))"
  by (simp add: probe_task_def split: prod.splits option.splits)

lemma fst_probe_task:
  "fst (probe_task E ctx (k, p)) =
     fst (executeProbe E k ctx p) @ (if snd (executeProbe E k ctx p) = None then [LogProbePassed (p_Name p)] else [])"
  by (simp add: probe_task_def split: prod.splits option.splits)

lemma set_map_filter: "set (List.map_filter f xs) = {y. \<exists>x \<in> set xs. f x = Some y}"
  by (induction xs) (auto simp: List.map_filter_simps split: option.splits)

lemma set_zip_upt:
  "set (zip [a ..< a + length xs] xs) = {(a + i, xs ! i) | i. i < length xs}"
  apply (auto simp: set_zip)
  apply (rule_tac x = i in exI)
  apply simp
  done

lemma set_probeErrors:
  "set (List.map_filter snd (map (probe_task E ctx) (zip [a ..< a + length probes] probes))) =
     {ErrProbeFailed (p_Name (probes ! i)) e | i e.
        i < length probes \<and> snd (executeProbe E (a + i) ctx (probes ! i)) = Some e}"
  by (fastforce simp: set_map_filter set_zip_upt snd_probe_task)

lemma set_probe_events:
  "set (concat (map fst (map (probe_task E ctx) (zip [a ..< a + length probes] probes)))) =
     (\<Union>i \<in> {..< length probes}. set (fst (probe_task E ctx (a + i, probes ! i))))"
  by (fastforce simp: set_zip_upt)

text \<open>
  The loop of \<^verbatim>\<open>Experiment.Validate\<close> leaves every \<^verbatim>\<open>Timeout\<close> of the experiment as it was:
  the default that \<^verbatim>\<open>Probe.Validate\<close> writes stays in the loop's copy of the probe.
\<close>

lemma validate_probes_Timeout:
  "map p_Timeout (snd (validate_probes i ps)) = map p_Timeout ps"
proof (induction ps arbitrary: i)
  case Nil
  show ?case by simp
next
  case (Cons probe rest)
  have "map p_Timeout (snd (validate_probes (Suc i) rest)) = map p_Timeout rest"
    by (rule Cons.IH)
  then show ?case
    by (auto split: prod.splits option.splits)
qed

lemma executeProbe_events:
  "fst (executeProbe E k ctx p) = [] \<or> fst (executeProbe E k ctx p) = [HTTPDo (p_Name p)]"
  by (simp add: executeProbe_def split: option.splits http_result.splits)

lemma probe_task_events: "\<forall>x \<in> set (fst (probe_task E ctx kp)). probe_event x"
proof -
  obtain k p where kp: "kp = (k, p)" by (cases kp)
  show ?thesis
    using executeProbe_events [of E k ctx p]
    by (auto simp: kp fst_probe_task probe_event_def)
qed

lemma RunProbes_events:
  "\<exists>evs. trace (snd (RunProbes E ctx probes w)) = trace w @ evs \<and> (\<forall>x \<in> set evs. probe_event x)"
  unfolding trace_RunProbes using probe_task_events by fastforce

lemma RunProbes_eventsE:
  assumes "RunProbes E ctx probes w = (r, w')"
  obtains evs where "trace w' = trace w @ evs" and "\<forall>x \<in> set evs. probe_event x"
  using RunProbes_events [of E ctx probes w] assms by auto

lemma executeAttack_cases:
  assumes "executeAttack E S ctx sc targets w = (r, w')"
  shows "(r = Some (ErrUnsupportedScenarioType (s_Type sc)) \<and> s_Type sc \<noteq> ''restart_random''
            \<and> w' = w)
       \<or> (r = Some ErrNoTargetsAvailable \<and> s_Type sc = ''restart_random'' \<and> targets = []
            \<and> w' = w)
       \<or> (\<exists>t e. t \<in> set targets \<and> s_Type sc = ''restart_random''
            \<and> RestartMachine S (calls w + 1) ctx (App (s_Selector sc)) (t_ID t) = Some e
            \<and> r = Some (ErrRestartingMachine (t_ID t) e)
            \<and> calls w' = calls w + 2
            \<and> trace w' = trace w @ [LogAttacking (t_ID t) (t_Name t),
                                     CallRestartMachine (App (s_Selector sc)) (t_ID t)])
       \<or> (\<exists>t. t \<in> set targets \<and> s_Type sc = ''restart_random''
            \<and> RestartMachine S (calls w + 1) ctx (App (s_Selector sc)) (t_ID t) = None
            \<and> r = None
            \<and> calls w' = calls w + 2
            \<and> trace w' = trace w @ [LogAttacking (t_ID t) (t_Name t),
                                     CallRestartMachine (App (s_Selector sc)) (t_ID t),
                                     LogSuccessfullyAttacked (t_ID t), Sleep (2 * Second)])"
proof (cases "s_Type sc \<noteq> ''restart_random''")
  case True
  with assms show ?thesis by (simp add: executeAttack_def)
next
  case rr: False
  show ?thesis
  proof (cases "targets = []")
    case True
    with assms rr show ?thesis by (simp add: executeAttack_def)
  next
    case False
    define t where "t = targets ! (rand_src E (calls w) mod length targets)"
    from False have t: "t \<in> set targets"
      by (simp add: t_def)
    show ?thesis
    proof (cases "RestartMachine S (calls w + 1) ctx (App (s_Selector sc)) (t_ID t)")
      case None
      with assms rr False t have "r = None \<and> calls w' = calls w + 2
            \<and> trace w' = trace w @ [LogAttacking (t_ID t) (t_Name t),
                                     CallRestartMachine (App (s_Selector sc)) (t_ID t),
                                     LogSuccessfullyAttacked (t_ID t), Sleep (2 * Second)]"
        by (auto simp: executeAttack_def Let_def t_def)
      with t rr None show ?thesis by blast
    next
      case (Some e)
      with assms rr False t have "r = Some (ErrRestartingMachine (t_ID t) e)
            \<and> calls w' = calls w + 2
            \<and> trace w' = trace w @ [LogAttacking (t_ID t) (t_Name t),
                                     CallRestartMachine (App (s_Selector sc)) (t_ID t)]"
        by (auto simp: executeAttack_def Let_def t_def)
      with t rr Some show ?thesis by blast
    qed
  qed
qed

lemma scenario_loop_append:
  "loop_state E S c x ts pre n w = Some (n', w') \<Longrightarrow>
   scenario_loop E S c x ts (pre @ sel) n w = scenario_loop E S c x ts sel n' w'"
  by (induction pre arbitrary: n w) (auto split: sum.splits)

lemma scenario_loop_SomeI:
  assumes "loop_state E S c x ts pre n w = Some (n', w')"
    and "loop_body E S c x ts ev n' w' = Inl r"
  shows "scenario_loop E S c x ts (pre @ ev # rest) n w = Some r"
  using assms by (simp add: scenario_loop_append)

lemma scenario_loop_SomeD:
  "scenario_loop E S c x ts sel n w = Some r \<Longrightarrow>
     \<exists>pre ev rest n' w'. sel = pre @ ev # rest \<and> loop_state E S c x ts pre n w = Some (n', w')
        \<and> loop_body E S c x ts ev n' w' = Inl r"
proof (induction sel arbitrary: n w)
  case Nil
  then show ?case by simp
next
  case (Cons ev sel)
  show ?case
  proof (cases "loop_body E S c x ts ev n w")
    case (Inl r')
    with Cons.prems have "r' = r" by simp
    with Inl have "ev # sel = [] @ ev # sel \<and> loop_state E S c x ts [] n w = Some (n, w)
        \<and> loop_body E S c x ts ev n w = Inl r"
      by simp
    then show ?thesis by blast
  next
    case (Inr st)
    obtain n1 w1 where st: "st = (n1, w1)" by (cases st)
    from Cons.prems Inr st have "scenario_loop E S c x ts sel n1 w1 = Some r"
      by simp
    from Cons.IH [OF this] obtain pre ev' rest n' w' where *: "sel = pre @ ev' # rest"
        "loop_state E S c x ts pre n1 w1 = Some (n', w')"
        "loop_body E S c x ts ev' n' w' = Inl r"
      by blast
    then have "ev # sel = (ev # pre) @ ev' # rest
        \<and> loop_state E S c x ts (ev # pre) n w = Some (n', w')
        \<and> loop_body E S c x ts ev' n' w' = Inl r"
      using Inr st by simp
    then show ?thesis by blast
  qed
qed

lemma loop_body_Inl:
  "loop_body E S c x ts ev n w = Inl (res, w') \<Longrightarrow>
     (res = None \<and> (\<exists>r. ev = CtxDone r \<and> w' = emit [Select (CtxDone r), LogDurationCompleted n] w))
   \<or> (\<exists>e w1. res = Some (ErrSteadyStateLost e) \<and> ev = TickFired
        \<and> executeAttack E S c (e_Scenario x) ts (emit [Select TickFired] w) = (None, w1)
        \<and> RunProbes E c (Probes (e_SteadyState x)) (emit [LogValidatingAfterAttack] w1) = (Some e, w'))"
  by (cases ev) (auto split: prod.splits option.splits)


lemma probe_event_scenario_event: "probe_event ev \<Longrightarrow> scenario_event ev"
  by (cases ev) (simp_all add: probe_event_def scenario_event_def)

lemma executeAttack_events:
  assumes "executeAttack E S ctx sc targets w = (r, w')"
  shows "\<exists>evs. trace w' = trace w @ evs \<and> (\<forall>ev \<in> set evs. scenario_event ev \<and> \<not> probe_event ev)"
  using executeAttack_cases [OF assms]
  by (elim disjE exE conjE) (simp_all add: scenario_event_def probe_event_def)

lemma loop_body_events:
  "\<exists>evs. trace (result_world (loop_body E S c x ts ev n w)) = trace w @ evs
      \<and> (\<forall>ev \<in> set evs. scenario_event ev)"
proof (cases ev)
  case (CtxDone r)
  then show ?thesis by (simp add: result_world_def scenario_event_def)
next
  case TickFired
  obtain r w1 where att: "executeAttack E S c (e_Scenario x) ts (emit [Select TickFired] w) = (r, w1)"
    by (cases "executeAttack E S c (e_Scenario x) ts (emit [Select TickFired] w)")
  from executeAttack_events [OF att] obtain evs1 where evs1:
    "trace w1 = trace w @ Select TickFired # evs1" "\<forall>ev \<in> set evs1. scenario_event ev"
    by auto
  show ?thesis
  proof (cases r)
    case (Some e)
    with TickFired att evs1 show ?thesis
      by (simp add: result_world_def scenario_event_def)
  next
    case None
    obtain r2 w2 where run: "RunProbes E c (Probes (e_SteadyState x))
        (emit [LogValidatingAfterAttack] w1) = (r2, w2)"
      by (cases "RunProbes E c (Probes (e_SteadyState x)) (emit [LogValidatingAfterAttack] w1)")
    from run obtain evs2 where evs2:
      "trace w2 = trace (emit [LogValidatingAfterAttack] w1) @ evs2" "\<forall>ev \<in> set evs2. probe_event ev"
      by (rule RunProbes_eventsE)
    have w2: "result_world (loop_body E S c x ts ev n w) = w2"
      using TickFired att None run by (simp add: result_world_def split: option.splits)
    have "trace w2 = trace w @ (Select TickFired # evs1 @ LogValidatingAfterAttack # evs2)"
      using evs1 evs2 by simp
    moreover have "\<forall>ev \<in> set (Select TickFired # evs1 @ LogValidatingAfterAttack # evs2). scenario_event ev"
      using evs1(2) evs2(2) probe_event_scenario_event by (auto simp: scenario_event_def)
    ultimately show ?thesis unfolding w2 by blast
  qed
qed

lemma loop_state_events:
  "loop_state E S c x ts pre n w = Some (n', w') \<Longrightarrow>
     \<exists>evs. trace w' = trace w @ evs \<and> (\<forall>ev \<in> set evs. scenario_event ev)"
proof (induction pre arbitrary: n w)
  case Nil
  then show ?case by simp
next
  case (Cons ev pre)
  from Cons.prems obtain n1 w1 where body: "loop_body E S c x ts ev n w = Inr (n1, w1)"
    and rest: "loop_state E S c x ts pre n1 w1 = Some (n', w')"
    by (auto split: sum.splits)
  from loop_body_events [of E S c x ts ev n w] body obtain evs1 where
    evs1: "trace w1 = trace w @ evs1" "\<forall>ev \<in> set evs1. scenario_event ev"
    by (auto simp: result_world_def)
  from Cons.IH [OF rest] obtain evs2 where
    evs2: "trace w' = trace w1 @ evs2" "\<forall>ev \<in> set evs2. scenario_event ev"
    by blast
  have "trace w' = trace w @ (evs1 @ evs2)" using evs1 evs2 by simp
  moreover have "\<forall>ev \<in> set (evs1 @ evs2). scenario_event ev" using evs1 evs2 by auto
  ultimately show ?case by blast
qed

lemma scenario_loop_events:
  assumes "scenario_loop E S c x ts sel n w = Some (r, w')"
  shows "\<exists>evs. trace w' = trace w @ evs \<and> (\<forall>ev \<in> set evs. scenario_event ev)"
proof -
  from scenario_loop_SomeD [OF assms] obtain pre ev rest n1 w1 where
    st: "loop_state E S c x ts pre n w = Some (n1, w1)"
    and body: "loop_body E S c x ts ev n1 w1 = Inl (r, w')"
    by blast
  from loop_state_events [OF st] obtain evs1 where
    evs1: "trace w1 = trace w @ evs1" "\<forall>ev \<in> set evs1. scenario_event ev"
    by blast
  from loop_body_events [of E S c x ts ev n1 w1] body obtain evs2 where
    evs2: "trace w' = trace w1 @ evs2" "\<forall>ev \<in> set evs2. scenario_event ev"
    by (auto simp: result_world_def)
  have "trace w' = trace w @ (evs1 @ evs2)" using evs1 evs2 by simp
  moreover have "\<forall>ev \<in> set (evs1 @ evs2). scenario_event ev" using evs1 evs2 by auto
  ultimately show ?thesis by blast
qed

lemma executeScenario_cases:
  assumes "executeScenario E S ctx x sel w = Some (out, w')"
  defines "w1 \<equiv> emit [LogExecutingScenario (s_Type (e_Scenario x)) (s_Duration (e_Scenario x))
                        (s_Interval (e_Scenario x)),
                      CallListTargets (App (s_Selector (e_Scenario x)))] w"
  shows "(\<exists>e. ListTargets S (calls w) ctx (App (s_Selector (e_Scenario x))) = Inl e
            \<and> out = Return (Some (ErrListingTargets e)) \<and> w' = tick 1 w1)
       \<or> (\<exists>ts. ListTargets S (calls w) ctx (App (s_Selector (e_Scenario x))) = Inr ts
            \<and> s_Interval (e_Scenario x) \<le> 0
            \<and> out = Panic ''non-positive interval for NewTicker''
            \<and> w' = emit [LogFoundTargets (length ts)] (tick 1 w1))
       \<or> (\<exists>ts r. ListTargets S (calls w) ctx (App (s_Selector (e_Scenario x))) = Inr ts
            \<and> 0 < s_Interval (e_Scenario x)
            \<and> out = Return r
            \<and> scenario_loop E S (WithTimeout ctx (s_Duration (e_Scenario x))) x ts sel 0
                 (emit [LogFoundTargets (length ts)] (tick 1 w1)) = Some (r, w'))"
  using assms(1) unfolding w1_def
  by (auto simp: executeScenario_def Let_def split: sum.splits if_splits option.splits)

lemma executeScenario_events:
  assumes "executeScenario E S ctx x sel w = Some (out, w')"
  shows "\<exists>evs. trace w' = trace w @ evs \<and> (\<forall>ev \<in> set evs. scenario_event ev)"
  using executeScenario_cases [OF assms]
proof (elim disjE exE conjE)
  fix ts r
  assume "scenario_loop E S (WithTimeout ctx (s_Duration (e_Scenario x))) x ts sel 0
     (emit [LogFoundTargets (length ts)]
       (tick 1 (emit [LogExecutingScenario (s_Type (e_Scenario x)) (s_Duration (e_Scenario x))
                        (s_Interval (e_Scenario x)),
                      CallListTargets (App (s_Selector (e_Scenario x)))] w))) = Some (r, w')"
  from scenario_loop_events [OF this] obtain evs where
    "trace w' = trace w @ ([LogExecutingScenario (s_Type (e_Scenario x)) (s_Duration (e_Scenario x))
                        (s_Interval (e_Scenario x)),
                      CallListTargets (App (s_Selector (e_Scenario x))),
                      LogFoundTargets (length ts)] @ evs)"
    "\<forall>ev \<in> set evs. scenario_event ev"
    by auto
  moreover from this(2) have "\<forall>ev \<in> set ([LogExecutingScenario (s_Type (e_Scenario x)) (s_Duration (e_Scenario x))
                        (s_Interval (e_Scenario x)),
                      CallListTargets (App (s_Selector (e_Scenario x))),
                      LogFoundTargets (length ts)] @ evs). scenario_event ev"
    by (simp add: scenario_event_def)
  ultimately show ?thesis by blast
qed (simp_all add: scenario_event_def)

lemmas ex_defs = target_a_def sab0_def sab_gone_def exp0_def exp_down_def exp_foo_def scenario0_def
  probe_ok_def probe_down_def env0_def w0_def env_regress_def

lemmas run_defs = executeScenario_def RunExperiment_def RunProbes_def probe_task_def
  executeProbe_def executeAttack_def emit_def tick_def Let_def

lemma executeAttack_NoneD:
  assumes "executeAttack E S ctx sc ts w = (None, w')"
  shows "\<exists>t \<in> set ts. RestartMachine S (calls w + 1) ctx (App (s_Selector sc)) (t_ID t) = None
            \<and> trace w' = trace w @ [LogAttacking (t_ID t) (t_Name t),
                 CallRestartMachine (App (s_Selector sc)) (t_ID t),
                 LogSuccessfullyAttacked (t_ID t), Sleep 2000000000]"
proof -
  from executeAttack_cases [OF assms] have "\<exists>t. t \<in> set ts
       \<and> RestartMachine S (calls w + 1) ctx (App (s_Selector sc)) (t_ID t) = None
       \<and> trace w' = trace w @ [LogAttacking (t_ID t) (t_Name t),
                 CallRestartMachine (App (s_Selector sc)) (t_ID t),
                 LogSuccessfullyAttacked (t_ID t), Sleep (2 * Second)]"
    by (elim disjE exE conjE) (simp_all, blast)
  then show ?thesis by (simp add: Second_def Bex_def)
qed

lemma Fly_ListTargets_not_empty: "Fly_ListTargets f A k ctx app \<noteq> Inr []"
  by (simp add: Fly_ListTargets_def Let_def split: api_response.splits option.splits)

lemma executeScenario_list_error:
  assumes "ListTargets S (calls w) ctx (App (s_Selector (e_Scenario x))) = Inl e"
  shows "executeScenario E S ctx x sel w =
     Some (Return (Some (ErrListingTargets e)),
       tick 1 (emit [LogExecutingScenario (s_Type (e_Scenario x)) (s_Duration (e_Scenario x))
                       (s_Interval (e_Scenario x)),
                     CallListTargets (App (s_Selector (e_Scenario x)))] w))"
  using assms by (simp add: executeScenario_def Let_def)

lemma RunExperiment_scenario_error:
  assumes "RunProbes E ctx (Probes (e_SteadyState x))
             (emit [LogStartingExperiment (e_Name x), LogDescription (e_Description x),
                    LogValidatingSteadyState] w) = (None, w2)"
    and "executeScenario E S ctx x sel (emit [LogSteadyStateValidated] w2)
           = Some (Return (Some e), w')"
  shows "RunExperiment E S ctx x sel w = Some (Return (Some (ErrScenarioFailed e)), w')"
  using assms by (simp add: RunExperiment_def Let_def)

lemma validate_probes_fails:
  "p \<in> set ps \<Longrightarrow> fst (Probe_Validate p) \<noteq> None \<Longrightarrow> fst (validate_probes i ps) \<noteq> None"
proof (induction ps arbitrary: i)
  case Nil
  then show ?case by simp
next
  case (Cons q qs)
  show ?case
  proof (cases "fst (Probe_Validate q)")
    case (Some e)
    then show ?thesis by (auto split: prod.splits option.splits)
  next
    case None
    with Cons.prems have "p \<in> set qs" by auto
    from Cons.IH [OF this Cons.prems(2), of "Suc i"] None show ?thesis
      by (auto split: prod.splits option.splits)
  qed
qed

lemma unsupported_probe_fails_RunProbes:
  assumes "p \<in> set probes" and "p_Type p \<noteq> ''http''"
  shows "\<exists>errs. fst (RunProbes E ctx probes w) = Some (ErrProbesFailed errs)
           \<and> ErrProbeFailed (p_Name p) (ErrUnsupportedProbeType (p_Type p)) \<in> set errs"
proof -
  let ?errs = "List.map_filter snd (map (probe_task E ctx)
      (zip [calls w ..< calls w + length probes] probes))"
  from assms(1) obtain i where i: "i < length probes" "probes ! i = p"
    by (auto simp: in_set_conv_nth)
  from assms(2) have "snd (executeProbe E (calls w + i) ctx p)
      = Some (ErrUnsupportedProbeType (p_Type p))"
    by (simp add: executeProbe_def)
  with i have mem: "ErrProbeFailed (p_Name p) (ErrUnsupportedProbeType (p_Type p)) \<in> set ?errs"
    unfolding set_probeErrors by blast
  then have "?errs \<noteq> []" by auto
  then have "fst (RunProbes E ctx probes w) = Some (ErrProbesFailed ?errs)"
    by (simp add: fst_RunProbes Let_def)
  with mem show ?thesis by blast
qed

lemma executeScenario_loop_error:
  assumes "ListTargets S (calls w) ctx (App (s_Selector (e_Scenario x))) = Inr ts"
    and "0 < s_Interval (e_Scenario x)"
    and "scenario_loop E S (WithTimeout ctx (s_Duration (e_Scenario x))) x ts sel 0
           (emit [LogFoundTargets (length ts)]
             (tick 1 (emit [LogExecutingScenario (s_Type (e_Scenario x))
                              (s_Duration (e_Scenario x)) (s_Interval (e_Scenario x)),
                            CallListTargets (App (s_Selector (e_Scenario x)))] w)))
         = Some (r, w')"
  shows "executeScenario E S ctx x sel w = Some (Return r, w')"
  using assms by (simp add: executeScenario_def Let_def)

section \<open>Steady-state validation\<close>

text \<open>
  C2. \<^verbatim>\<open>RunProbes\<close> returns nil if and only if every probe of the collection succeeds.
  When it fails, the aggregate error holds exactly one kind of entry,
  \<open>ErrProbeFailed name e\<close>, for every failing probe with its name and its error, not
  only for the first. Every probe runs to its end whatever the others do: the events of
  each probe are in the trace, and each passing probe is logged as passed.
\<close>

theorem RunProbes_all_or_aggregate:
  "(fst (RunProbes E ctx probes w) = None \<longleftrightarrow>
      (\<forall>i < length probes. snd (executeProbe E (calls w + i) ctx (probes ! i)) = None))
   \<and> (fst (RunProbes E ctx probes w) \<noteq> None \<longrightarrow>
        (\<exists>errs. fst (RunProbes E ctx probes w) = Some (ErrProbesFailed errs) \<and>
           set errs = {ErrProbeFailed (p_Name (probes ! i)) e | i e.
              i < length probes \<and> snd (executeProbe E (calls w + i) ctx (probes ! i)) = Some e}))
   \<and> (\<forall>i < length probes.
        set (fst (executeProbe E (calls w + i) ctx (probes ! i)))
          \<subseteq> set (trace (snd (RunProbes E ctx probes w))) \<and>
        (snd (executeProbe E (calls w + i) ctx (probes ! i)) = None \<longrightarrow>
           LogProbePassed (p_Name (probes ! i)) \<in> set (trace (snd (RunProbes E ctx probes w)))))"
proof (intro conjI allI impI)
  let ?errs = "List.map_filter snd (map (probe_task E ctx) (zip [calls w ..< calls w + length probes] probes))"
  have errs: "set ?errs = {ErrProbeFailed (p_Name (probes ! i)) e | i e.
      i < length probes \<and> snd (executeProbe E (calls w + i) ctx (probes ! i)) = Some e}"
    by (rule set_probeErrors)
  have res: "fst (RunProbes E ctx probes w) = (if ?errs = [] then None else Some (ErrProbesFailed ?errs))"
    by (simp add: fst_RunProbes Let_def)
  have "?errs = [] \<longleftrightarrow> (\<forall>i < length probes. snd (executeProbe E (calls w + i) ctx (probes ! i)) = None)"
  proof -
    have "?errs = [] \<longleftrightarrow> set ?errs = {}" by simp
    also have "\<dots> \<longleftrightarrow> (\<forall>i < length probes. snd (executeProbe E (calls w + i) ctx (probes ! i)) = None)"
    proof
      assume empty: "set ?errs = {}"
      show "\<forall>i < length probes. snd (executeProbe E (calls w + i) ctx (probes ! i)) = None"
      proof (intro allI impI, rule ccontr)
        fix i assume i: "i < length probes"
          and "snd (executeProbe E (calls w + i) ctx (probes ! i)) \<noteq> None"
        then obtain e where "snd (executeProbe E (calls w + i) ctx (probes ! i)) = Some e"
          by auto
        with i have "ErrProbeFailed (p_Name (probes ! i)) e \<in> set ?errs"
          unfolding errs by blast
        with empty show False by simp
      qed
    next
      assume "\<forall>i < length probes. snd (executeProbe E (calls w + i) ctx (probes ! i)) = None"
      then show "set ?errs = {}" unfolding errs by auto
    qed
    finally show ?thesis .
  qed
  with res show "fst (RunProbes E ctx probes w) = None \<longleftrightarrow>
      (\<forall>i < length probes. snd (executeProbe E (calls w + i) ctx (probes ! i)) = None)"
    by simp
  show "\<exists>errs. fst (RunProbes E ctx probes w) = Some (ErrProbesFailed errs) \<and>
           set errs = {ErrProbeFailed (p_Name (probes ! i)) e | i e.
              i < length probes \<and> snd (executeProbe E (calls w + i) ctx (probes ! i)) = Some e}"
    if "fst (RunProbes E ctx probes w) \<noteq> None"
    using that res errs by (intro exI [of _ ?errs]) (simp split: if_splits)
next
  fix i assume i: "i < length probes"
  have "set (fst (probe_task E ctx (calls w + i, probes ! i)))
          \<subseteq> set (trace (snd (RunProbes E ctx probes w)))"
    using i unfolding trace_RunProbes set_append set_probe_events by blast
  then show "set (fst (executeProbe E (calls w + i) ctx (probes ! i)))
          \<subseteq> set (trace (snd (RunProbes E ctx probes w)))"
    by (auto simp: fst_probe_task)
next
  fix i assume i: "i < length probes"
    and pass: "snd (executeProbe E (calls w + i) ctx (probes ! i)) = None"
  have "set (fst (probe_task E ctx (calls w + i, probes ! i)))
          \<subseteq> set (trace (snd (RunProbes E ctx probes w)))"
    using i unfolding trace_RunProbes set_append set_probe_events by blast
  with pass show "LogProbePassed (p_Name (probes ! i)) \<in> set (trace (snd (RunProbes E ctx probes w)))"
    by (auto simp: fst_probe_task)
qed

theorem RunProbes_all_or_aggregate_witness:
  "fst (RunProbes env0 CallerCtx [probe_down, probe_ok, probe_ftp] w0) \<noteq> None
   \<and> (\<exists>errs. fst (RunProbes env0 CallerCtx [probe_down, probe_ok, probe_ftp] w0)
               = Some (ErrProbesFailed errs)
         \<and> ErrProbeFailed ''down'' (ErrUnexpectedStatus 500 200) \<in> set errs
         \<and> ErrProbeFailed ''ftp'' (ErrUnsupportedProbeType ''ftp'') \<in> set errs)
   \<and> LogProbePassed ''ok'' \<in> set (trace (snd (RunProbes env0 CallerCtx [probe_down, probe_ok, probe_ftp] w0)))"
proof -
  let ?ps = "[probe_down, probe_ok, probe_ftp]"
  note T = RunProbes_all_or_aggregate [of env0 CallerCtx ?ps w0]
  have e0: "snd (executeProbe env0 (calls w0 + 0) CallerCtx (?ps ! 0))
              = Some (ErrUnexpectedStatus 500 200)"
    by (simp add: executeProbe_def env0_def probe_down_def)
  have e1: "snd (executeProbe env0 (calls w0 + 1) CallerCtx (?ps ! 1)) = None"
    by (simp add: executeProbe_def env0_def probe_ok_def)
  have e2: "snd (executeProbe env0 (calls w0 + 2) CallerCtx (?ps ! 2))
              = Some (ErrUnsupportedProbeType ''ftp'')"
    by (simp add: executeProbe_def env0_def probe_ftp_def)
  have fails: "fst (RunProbes env0 CallerCtx ?ps w0) \<noteq> None"
  proof
    assume "fst (RunProbes env0 CallerCtx ?ps w0) = None"
    with T have "\<forall>i < length ?ps. snd (executeProbe env0 (calls w0 + i) CallerCtx (?ps ! i)) = None"
      by blast
    then have "0 < length ?ps \<longrightarrow>
        snd (executeProbe env0 (calls w0 + 0) CallerCtx (?ps ! 0)) = None"
      by blast
    then have "snd (executeProbe env0 (calls w0 + 0) CallerCtx (?ps ! 0)) = None"
      by simp
    with e0 show False by simp
  qed
  with T obtain errs where errs:
    "fst (RunProbes env0 CallerCtx ?ps w0) = Some (ErrProbesFailed errs)"
    "set errs = {ErrProbeFailed (p_Name (?ps ! i)) e | i e.
        i < length ?ps \<and> snd (executeProbe env0 (calls w0 + i) CallerCtx (?ps ! i)) = Some e}"
    by blast
  have "ErrProbeFailed (p_Name (?ps ! 0)) (ErrUnexpectedStatus 500 200) \<in> set errs"
    unfolding errs(2) using e0 by (intro CollectI exI [of _ 0] exI conjI) auto
  then have m0: "ErrProbeFailed ''down'' (ErrUnexpectedStatus 500 200) \<in> set errs"
    by (simp add: probe_down_def)
  have "ErrProbeFailed (p_Name (?ps ! 2)) (ErrUnsupportedProbeType ''ftp'') \<in> set errs"
    unfolding errs(2) using e2 by (intro CollectI exI [of _ 2] exI conjI) auto
  then have m2: "ErrProbeFailed ''ftp'' (ErrUnsupportedProbeType ''ftp'') \<in> set errs"
    by (simp add: probe_ftp_def)
  from T have "1 < length ?ps \<longrightarrow>
      (snd (executeProbe env0 (calls w0 + 1) CallerCtx (?ps ! 1)) = None \<longrightarrow>
       LogProbePassed (p_Name (?ps ! 1)) \<in> set (trace (snd (RunProbes env0 CallerCtx ?ps w0))))"
    by blast
  with e1 have "LogProbePassed (p_Name (?ps ! 1)) \<in> set (trace (snd (RunProbes env0 CallerCtx ?ps w0)))"
    by simp
  then have "LogProbePassed ''ok'' \<in> set (trace (snd (RunProbes env0 CallerCtx ?ps w0)))"
    by (simp add: probe_ok_def)
  with fails errs(1) m0 m2 show ?thesis by blast
qed

text \<open>
  C10. With no probes \<^verbatim>\<open>RunProbes\<close> returns nil and does nothing: the world, and so the
  trace, is unchanged, and no health check was made. The empty collection is refused by
  \<^verbatim>\<open>Experiment.Validate\<close>, which returns an error for it.
\<close>

theorem RunProbes_no_probes:
  "RunProbes E ctx [] w = (None, w)
   \<and> (Probes (e_SteadyState e) = [] \<longrightarrow>
        fst (Experiment_Validate e)
          = Some (if e_Name e = [] then ErrExperimentNameRequired else ErrAtLeastOneProbe))"
  by (simp add: RunProbes_empty Experiment_Validate_def)

theorem RunProbes_no_probes_witness:
  "Probes (e_SteadyState exp_noprobes) = []
   \<and> RunProbes env0 CallerCtx (Probes (e_SteadyState exp_noprobes)) w0 = (None, w0)
   \<and> fst (Experiment_Validate exp_noprobes) = Some ErrAtLeastOneProbe"
proof -
  have empty: "Probes (e_SteadyState exp_noprobes) = []"
    by (simp add: exp_noprobes_def)
  have name: "e_Name exp_noprobes \<noteq> []"
    by (simp add: exp_noprobes_def)
  from RunProbes_no_probes [of env0 CallerCtx w0 exp_noprobes] empty name
  show ?thesis by simp
qed

section \<open>Probe validation\<close>

text \<open>
  C9. \<^verbatim>\<open>Probe.Validate\<close> fails exactly when the name is empty, the type is not "http", the
  http configuration is absent or the URL is empty. When it succeeds, the probe it leaves
  is the probe it was given with an unset method set to "GET", an unset expected status
  set to 200 and an unset timeout set to 30 seconds, and nothing else changed. A probe
  that carries the validated http configuration of a probe whose expected status was
  unset passes \<^verbatim>\<open>executeProbe\<close> on status 200 and fails with the unexpected-status error
  on any other status.
\<close>

theorem Probe_Validate_defaults:
  "(fst (Probe_Validate p) \<noteq> None \<longleftrightarrow>
      p_Name p = [] \<or> p_Type p \<noteq> ''http'' \<or> p_HTTP p = None
      \<or> (\<exists>h. p_HTTP p = Some h \<and> h_URL h = []))
   \<and> (fst (Probe_Validate p) = None \<longrightarrow>
        (\<exists>h. p_HTTP p = Some h \<and>
           snd (Probe_Validate p) =
             p\<lparr>p_HTTP := Some (h\<lparr>h_Method := (if h_Method h = [] then ''GET'' else h_Method h),
                                h_ExpectedStatus :=
                                  (if h_ExpectedStatus h = 0 then 200 else h_ExpectedStatus h)\<rparr>),
               p_Timeout := (if p_Timeout p = 0 then 30000000000 else p_Timeout p)\<rparr>))
   \<and> (\<forall>h q code. fst (Probe_Validate p) = None \<and> p_HTTP p = Some h \<and> h_ExpectedStatus h = 0 \<and>
          p_Type q = p_Type p \<and> p_HTTP q = p_HTTP (snd (Probe_Validate p)) \<and>
          new_request_ok E (if h_Method h = [] then ''GET'' else h_Method h) (h_URL h) \<and>
          client_do E k ctx q = Status code \<longrightarrow>
          snd (executeProbe E k ctx q)
            = (if code = 200 then None else Some (ErrUnexpectedStatus code 200)))"
  by (auto simp: Probe_Validate_def executeProbe_def Second_def Let_def split: option.splits)

theorem Probe_Validate_defaults_witness:
  "fst (Probe_Validate probe_bare) = None
   \<and> snd (Probe_Validate probe_bare) =
       \<lparr>p_Name = ''bare'', p_Type = ''http'',
        p_HTTP = Some \<lparr>h_URL = ''http://app/bare'', h_Method = ''GET'', h_ExpectedStatus = 200,
                        h_Headers = Map.empty\<rparr>,
        p_Timeout = 30000000000\<rparr>
   \<and> snd (executeProbe env0 0 CallerCtx (snd (Probe_Validate probe_bare))) = None
   \<and> fst (Probe_Validate probe_ftp) \<noteq> None"
proof -
  note T = Probe_Validate_defaults [of probe_bare env0 0 CallerCtx]
  have ok: "fst (Probe_Validate probe_bare) = None"
    using T by (simp add: probe_bare_def)
  with T have after: "snd (Probe_Validate probe_bare) =
       \<lparr>p_Name = ''bare'', p_Type = ''http'',
        p_HTTP = Some \<lparr>h_URL = ''http://app/bare'', h_Method = ''GET'', h_ExpectedStatus = 200,
                        h_Headers = Map.empty\<rparr>,
        p_Timeout = 30000000000\<rparr>"
    by (auto simp: probe_bare_def)
  have "client_do env0 0 CallerCtx (snd (Probe_Validate probe_bare)) = Status 200"
    by (simp add: after env0_def)
  with T ok have "snd (executeProbe env0 0 CallerCtx (snd (Probe_Validate probe_bare)))
      = (if (200::int) = 200 then None else Some (ErrUnexpectedStatus 200 200))"
    by (simp add: probe_bare_def env0_def)
  then have run: "snd (executeProbe env0 0 CallerCtx (snd (Probe_Validate probe_bare))) = None"
    by simp
  have "fst (Probe_Validate probe_ftp) \<noteq> None"
    using Probe_Validate_defaults [of probe_ftp env0 0 CallerCtx] by (simp add: probe_ftp_def)
  with ok after run show ?thesis by simp
qed

section \<open>The scenario loop\<close>

text \<open>
  C3, as the claim states it: the loop returns success exactly when the configured
  duration elapses. It fails on a run in which the caller cancels the context before the
  duration is over (\<^verbatim>\<open>main\<close> does so on SIGINT): \<^verbatim>\<open>durationCtx.Done()\<close> becomes ready, the
  \<^verbatim>\<open>select\<close> receives from it and \<^verbatim>\<open>executeScenario\<close> returns nil.
\<close>

theorem executeScenario_cancel_counterexample:
  "executeScenario env0 sab0 CallerCtx exp0 [CtxDone Canceled] w0 =
     Some (Return None,
       \<lparr>calls = 1,
        trace = [LogExecutingScenario ''restart_random'' (5 * Second) (2 * Second),
                 CallListTargets ''shop'', LogFoundTargets 1,
                 Select (CtxDone Canceled), LogDurationCompleted 0]\<rparr>)"
  by (simp add: ex_defs run_defs Second_def)

text \<open>
  C3, amended. The loop returns nil exactly when a \<^verbatim>\<open>select\<close> receives from
  \<^verbatim>\<open>durationCtx.Done()\<close> (ready when the duration has elapsed or the caller's context is
  cancelled); a receive from that channel always ends the loop with nil at once, whatever
  would be received next. Every other way the loop ends is an error: a steady-state
  regression from the loop, a failed target listing from \<^verbatim>\<open>executeScenario\<close> before it.
\<close>

theorem Done_branch_is_clean_exit:
  "scenario_loop E S c x ts (CtxDone r # sel) n w
      = Some (None, emit [Select (CtxDone r), LogDurationCompleted n] w)
   \<and> (scenario_loop E S c x ts sel n w = Some (None, w') \<longleftrightarrow>
        (\<exists>pre r rest n1 w1. sel = pre @ CtxDone r # rest
           \<and> loop_state E S c x ts pre n w = Some (n1, w1)
           \<and> w' = emit [Select (CtxDone r), LogDurationCompleted n1] w1))
   \<and> (\<forall>e. scenario_loop E S c x ts sel n w = Some (Some e, w') \<longrightarrow>
          (\<exists>e'. e = ErrSteadyStateLost e'))
   \<and> (executeScenario E S ctx x sel w = Some (Return None, w') \<longrightarrow>
        (\<exists>evs r n1. trace w' = trace w @ evs @ [Select (CtxDone r), LogDurationCompleted n1]))
   \<and> (\<forall>e. executeScenario E S ctx x sel w = Some (Return (Some e), w') \<longrightarrow>
          (\<exists>e'. e = ErrListingTargets e' \<or> e = ErrSteadyStateLost e'))"
proof -
  have nil_iff: "scenario_loop E S c x ts sel n w = Some (None, w') \<longleftrightarrow>
        (\<exists>pre r rest n1 w1. sel = pre @ CtxDone r # rest
           \<and> loop_state E S c x ts pre n w = Some (n1, w1)
           \<and> w' = emit [Select (CtxDone r), LogDurationCompleted n1] w1)"
    for c ts sel n w w'
  proof
    assume "scenario_loop E S c x ts sel n w = Some (None, w')"
    from scenario_loop_SomeD [OF this] obtain pre ev rest n1 w1 where
      *: "sel = pre @ ev # rest" "loop_state E S c x ts pre n w = Some (n1, w1)"
         "loop_body E S c x ts ev n1 w1 = Inl (None, w')"
      by blast
    from loop_body_Inl [OF *(3)] obtain r where
      "ev = CtxDone r" "w' = emit [Select (CtxDone r), LogDurationCompleted n1] w1"
      by auto
    with * show "\<exists>pre r rest n1 w1. sel = pre @ CtxDone r # rest
           \<and> loop_state E S c x ts pre n w = Some (n1, w1)
           \<and> w' = emit [Select (CtxDone r), LogDurationCompleted n1] w1"
      by blast
  next
    assume "\<exists>pre r rest n1 w1. sel = pre @ CtxDone r # rest
           \<and> loop_state E S c x ts pre n w = Some (n1, w1)
           \<and> w' = emit [Select (CtxDone r), LogDurationCompleted n1] w1"
    then obtain pre r rest n1 w1 where *: "sel = pre @ CtxDone r # rest"
        "loop_state E S c x ts pre n w = Some (n1, w1)"
        "w' = emit [Select (CtxDone r), LogDurationCompleted n1] w1"
      by blast
    have "loop_body E S c x ts (CtxDone r) n1 w1 = Inl (None, w')"
      using *(3) by simp
    from scenario_loop_SomeI [OF *(2) this] *(1)
    show "scenario_loop E S c x ts sel n w = Some (None, w')" by simp
  qed
  have err_shape: "\<exists>e'. e = ErrSteadyStateLost e'"
    if "scenario_loop E S c x ts sel n w = Some (Some e, w')" for c ts sel n w w' e
  proof -
    from scenario_loop_SomeD [OF that] obtain ev n1 w1 where
      "loop_body E S c x ts ev n1 w1 = Inl (Some e, w')"
      by blast
    from loop_body_Inl [OF this] show ?thesis by auto
  qed
  have scen_nil: "\<exists>evs r n1. trace w' = trace w @ evs @ [Select (CtxDone r), LogDurationCompleted n1]"
    if "executeScenario E S ctx x sel w = Some (Return None, w')"
  proof -
    from executeScenario_cases [OF that] obtain ts where
      loop0: "scenario_loop E S (WithTimeout ctx (s_Duration (e_Scenario x))) x ts sel 0
          (emit [LogFoundTargets (length ts)]
            (tick 1 (emit [LogExecutingScenario (s_Type (e_Scenario x))
                (s_Duration (e_Scenario x)) (s_Interval (e_Scenario x)),
              CallListTargets (App (s_Selector (e_Scenario x)))] w)))
          = Some (None, w')"
      by auto
    define wl where "wl = emit [LogFoundTargets (length ts)]
            (tick 1 (emit [LogExecutingScenario (s_Type (e_Scenario x))
                (s_Duration (e_Scenario x)) (s_Interval (e_Scenario x)),
              CallListTargets (App (s_Selector (e_Scenario x)))] w))"
    have wl: "trace wl = trace w @ [LogExecutingScenario (s_Type (e_Scenario x))
              (s_Duration (e_Scenario x)) (s_Interval (e_Scenario x)),
            CallListTargets (App (s_Selector (e_Scenario x))), LogFoundTargets (length ts)]"
      by (simp add: wl_def)
    have loop: "scenario_loop E S (WithTimeout ctx (s_Duration (e_Scenario x))) x ts sel 0 wl
          = Some (None, w')"
      using loop0 by (simp add: wl_def)
    from loop nil_iff obtain pre r n1 w1 where
      st: "loop_state E S (WithTimeout ctx (s_Duration (e_Scenario x))) x ts pre 0 wl = Some (n1, w1)"
      and w': "w' = emit [Select (CtxDone r), LogDurationCompleted n1] w1"
      by blast
    from loop_state_events [OF st] obtain evs where "trace w1 = trace wl @ evs"
      by blast
    with wl w' have "trace w' = trace w @ ([LogExecutingScenario (s_Type (e_Scenario x))
              (s_Duration (e_Scenario x)) (s_Interval (e_Scenario x)),
            CallListTargets (App (s_Selector (e_Scenario x))), LogFoundTargets (length ts)] @ evs)
          @ [Select (CtxDone r), LogDurationCompleted n1]"
      by simp
    then show ?thesis by blast
  qed
  have scen_err: "\<exists>e'. e = ErrListingTargets e' \<or> e = ErrSteadyStateLost e'"
    if "executeScenario E S ctx x sel w = Some (Return (Some e), w')" for e
    using executeScenario_cases [OF that] by (auto dest!: err_shape)
  show ?thesis
    using nil_iff [of c ts sel n w w'] err_shape [of c ts sel n w _ w'] scen_nil scen_err
    by simp
qed

theorem Done_branch_is_clean_exit_witness:
  "scenario_loop env0 sab0 (WithTimeout CallerCtx (5 * Second)) exp0 [target_a]
      [TickFired, CtxDone DeadlineExceeded, TickFired] 0 w0
    = Some (None,
        \<lparr>calls = 3,
         trace = [Select TickFired, LogAttacking ''m1'' ''web-1'',
                  CallRestartMachine ''shop'' ''m1'', LogSuccessfullyAttacked ''m1'',
                  Sleep 2000000000, LogValidatingAfterAttack, HTTPDo ''ok'',
                  LogProbePassed ''ok'', Select (CtxDone DeadlineExceeded),
                  LogDurationCompleted 1]\<rparr>)"
proof -
  let ?c = "WithTimeout CallerCtx (5 * Second)"
  let ?w1 = "\<lparr>calls = 3,
         trace = [Select TickFired, LogAttacking ''m1'' ''web-1'',
                  CallRestartMachine ''shop'' ''m1'', LogSuccessfullyAttacked ''m1'',
                  Sleep 2000000000, LogValidatingAfterAttack, HTTPDo ''ok'',
                  LogProbePassed ''ok'']\<rparr>"
  let ?w' = "\<lparr>calls = 3,
         trace = [Select TickFired, LogAttacking ''m1'' ''web-1'',
                  CallRestartMachine ''shop'' ''m1'', LogSuccessfullyAttacked ''m1'',
                  Sleep 2000000000, LogValidatingAfterAttack, HTTPDo ''ok'',
                  LogProbePassed ''ok'', Select (CtxDone DeadlineExceeded),
                  LogDurationCompleted 1]\<rparr>"
  have st: "loop_state env0 sab0 ?c exp0 [target_a] [TickFired] 0 w0 = Some (1, ?w1)"
    by (simp add: ex_defs run_defs Second_def)
  have w': "?w' = emit [Select (CtxDone DeadlineExceeded), LogDurationCompleted 1] ?w1"
    by (simp add: emit_def)
  have split: "[TickFired, CtxDone DeadlineExceeded, TickFired]
      = [TickFired] @ CtxDone DeadlineExceeded # [TickFired]"
    by simp
  from Done_branch_is_clean_exit [where E = env0 and S = sab0 and c = ?c and x = exp0
      and ts = "[target_a]" and sel = "[TickFired, CtxDone DeadlineExceeded, TickFired]"
      and n = 0 and w = w0 and w' = ?w' and r = DeadlineExceeded and ctx = CallerCtx]
  have "scenario_loop env0 sab0 ?c exp0 [target_a]
          [TickFired, CtxDone DeadlineExceeded, TickFired] 0 w0 = Some (None, ?w') \<longleftrightarrow>
        (\<exists>pre r rest n1 w1. [TickFired, CtxDone DeadlineExceeded, TickFired] = pre @ CtxDone r # rest
           \<and> loop_state env0 sab0 ?c exp0 [target_a] pre 0 w0 = Some (n1, w1)
           \<and> ?w' = emit [Select (CtxDone r), LogDurationCompleted n1] w1)"
    by (rule conjunct1 [OF conjunct2])
  with st w' split show ?thesis by blast
qed

text \<open>
  C5. On a tick whose \<^verbatim>\<open>executeAttack\<close> returns an error the loop body does not return:
  the loop goes on with the next receive and the same attack count. In that tick at most
  one restart call was made (no retry) and no probe was run (the events of the tick are
  the receive, the attempt if there was one, and the line that logs the failure). With an
  empty snapshot the attack fails with the no-targets error and the world is unchanged.
\<close>

theorem failed_attack_goes_to_next_tick:
  "(executeAttack E S c (e_Scenario x) ts (emit [Select TickFired] w) = (Some e, w1) \<longrightarrow>
      loop_body E S c x ts TickFired n w = Inr (n, emit [LogAttackFailed e] w1)
      \<and> scenario_loop E S c x ts (TickFired # sel) n w
          = scenario_loop E S c x ts sel n (emit [LogAttackFailed e] w1)
      \<and> (\<exists>evs. trace w1 = trace w @ Select TickFired # evs
            \<and> (evs = [] \<or>
                (\<exists>t \<in> set ts. evs = [LogAttacking (t_ID t) (t_Name t),
                   CallRestartMachine (App (s_Selector (e_Scenario x))) (t_ID t)]))))
   \<and> (s_Type (e_Scenario x) = ''restart_random'' \<longrightarrow>
        executeAttack E S c (e_Scenario x) [] w = (Some ErrNoTargetsAvailable, w))"
proof (intro conjI impI)
  assume att: "executeAttack E S c (e_Scenario x) ts (emit [Select TickFired] w) = (Some e, w1)"
  then show body: "loop_body E S c x ts TickFired n w = Inr (n, emit [LogAttackFailed e] w1)"
    by simp
  then show "scenario_loop E S c x ts (TickFired # sel) n w
          = scenario_loop E S c x ts sel n (emit [LogAttackFailed e] w1)"
    by simp
  from executeAttack_cases [OF att]
  show "\<exists>evs. trace w1 = trace w @ Select TickFired # evs
            \<and> (evs = [] \<or>
                (\<exists>t \<in> set ts. evs = [LogAttacking (t_ID t) (t_Name t),
                   CallRestartMachine (App (s_Selector (e_Scenario x))) (t_ID t)]))"
    by (elim disjE exE conjE) auto
next
  assume "s_Type (e_Scenario x) = ''restart_random''"
  then show "executeAttack E S c (e_Scenario x) [] w = (Some ErrNoTargetsAvailable, w)"
    by (simp add: executeAttack_def)
qed

theorem failed_attack_goes_to_next_tick_witness:
  "scenario_loop env0 sab_gone (WithTimeout CallerCtx (5 * Second)) exp0 [target_a]
      [TickFired, CtxDone DeadlineExceeded] 0 w0
    = Some (None,
        \<lparr>calls = 2,
         trace = [Select TickFired, LogAttacking ''m1'' ''web-1'',
                  CallRestartMachine ''shop'' ''m1'',
                  LogAttackFailed (ErrRestartingMachine ''m1'' (ErrUnexpectedStatusCode 404 ''gone'')),
                  Select (CtxDone DeadlineExceeded), LogDurationCompleted 0]\<rparr>)
   \<and> executeAttack env0 sab_gone (WithTimeout CallerCtx (5 * Second)) (e_Scenario exp0) [] w0
        = (Some ErrNoTargetsAvailable, w0)"
proof -
  let ?c = "WithTimeout CallerCtx (5 * Second)"
  let ?e = "ErrRestartingMachine ''m1'' (ErrUnexpectedStatusCode 404 ''gone'')"
  let ?w1 = "\<lparr>calls = 2,
         trace = [Select TickFired, LogAttacking ''m1'' ''web-1'',
                  CallRestartMachine ''shop'' ''m1'']\<rparr>"
  note T = failed_attack_goes_to_next_tick [where E = env0 and S = sab_gone and c = ?c
      and x = exp0 and ts = "[target_a]" and w = w0 and e = ?e and ?w1.0 = ?w1 and n = 0
      and sel = "[CtxDone DeadlineExceeded]"]
  have att: "executeAttack env0 sab_gone ?c (e_Scenario exp0) [target_a] (emit [Select TickFired] w0)
      = (Some ?e, ?w1)"
    by (simp add: ex_defs run_defs)
  with T have "scenario_loop env0 sab_gone ?c exp0 [target_a] (TickFired # [CtxDone DeadlineExceeded]) 0 w0
      = scenario_loop env0 sab_gone ?c exp0 [target_a] [CtxDone DeadlineExceeded] 0
          (emit [LogAttackFailed ?e] ?w1)"
    by blast
  then have loop: "scenario_loop env0 sab_gone ?c exp0 [target_a] [TickFired, CtxDone DeadlineExceeded] 0 w0
      = Some (None,
        \<lparr>calls = 2,
         trace = [Select TickFired, LogAttacking ''m1'' ''web-1'',
                  CallRestartMachine ''shop'' ''m1'', LogAttackFailed ?e,
                  Select (CtxDone DeadlineExceeded), LogDurationCompleted 0]\<rparr>)"
    by (simp add: emit_def)
  have "s_Type (e_Scenario exp0) = ''restart_random''"
    by (simp add: ex_defs)
  with T have "executeAttack env0 sab_gone ?c (e_Scenario exp0) [] w0 = (Some ErrNoTargetsAvailable, w0)"
    by blast
  with loop show ?thesis by blast
qed

text \<open>
  C8. When \<^verbatim>\<open>executeAttack\<close> returns nil the restart call returned nil and the last
  event of the attack is the settle delay of two seconds, after the restart call; when it
  returns an error it made no settle delay. In the loop, the validation after a
  successful attack comes after that delay: the events of the tick up to the delay hold
  no probe event, and the delay is followed by the validation line and the probe events.
\<close>

theorem settle_delay_follows_successful_attack:
  "(executeAttack E S ctx sc ts w = (r, w') \<longrightarrow>
      (r = None \<longrightarrow>
         (\<exists>t \<in> set ts. RestartMachine S (calls w + 1) ctx (App (s_Selector sc)) (t_ID t) = None
            \<and> trace w' = trace w @ [LogAttacking (t_ID t) (t_Name t),
                 CallRestartMachine (App (s_Selector sc)) (t_ID t),
                 LogSuccessfullyAttacked (t_ID t), Sleep 2000000000]))
      \<and> (r \<noteq> None \<longrightarrow> (\<exists>evs. trace w' = trace w @ evs \<and> (\<forall>d. Sleep d \<notin> set evs))))
   \<and> (executeAttack E S c (e_Scenario x) ts (emit [Select TickFired] w) = (None, w1) \<longrightarrow>
        (\<exists>evs0 evs. trace w1 = trace w @ evs0 @ [Sleep 2000000000]
           \<and> (\<forall>ev \<in> set evs0. \<not> probe_event ev)
           \<and> trace (result_world (loop_body E S c x ts TickFired n w))
               = trace w1 @ LogValidatingAfterAttack # evs
           \<and> (\<forall>ev \<in> set evs. probe_event ev)))"
proof (intro conjI impI)
  assume att: "executeAttack E S ctx sc ts w = (r, w')"
  show "\<exists>t \<in> set ts. RestartMachine S (calls w + 1) ctx (App (s_Selector sc)) (t_ID t) = None
            \<and> trace w' = trace w @ [LogAttacking (t_ID t) (t_Name t),
                 CallRestartMachine (App (s_Selector sc)) (t_ID t),
                 LogSuccessfullyAttacked (t_ID t), Sleep 2000000000]"
    if "r = None"
    using att that executeAttack_NoneD by blast
  from executeAttack_cases [OF att]
  show "\<exists>evs. trace w' = trace w @ evs \<and> (\<forall>d. Sleep d \<notin> set evs)" if "r \<noteq> None"
    using that by (elim disjE exE conjE) auto
next
  assume att: "executeAttack E S c (e_Scenario x) ts (emit [Select TickFired] w) = (None, w1)"
  from executeAttack_NoneD [OF att] obtain t :: Target where
    "trace w1 = trace (emit [Select TickFired] w) @ [LogAttacking (t_ID t) (t_Name t),
          CallRestartMachine (App (s_Selector (e_Scenario x))) (t_ID t),
          LogSuccessfullyAttacked (t_ID t), Sleep 2000000000]"
    by blast
  then have t0: "trace w1 = trace w @ [Select TickFired, LogAttacking (t_ID t) (t_Name t),
          CallRestartMachine (App (s_Selector (e_Scenario x))) (t_ID t),
          LogSuccessfullyAttacked (t_ID t), Sleep 2000000000]"
    by simp
  then have t: "trace w1 = trace w @ [Select TickFired, LogAttacking (t_ID t) (t_Name t),
          CallRestartMachine (App (s_Selector (e_Scenario x))) (t_ID t),
          LogSuccessfullyAttacked (t_ID t)] @ [Sleep 2000000000]"
    by simp
  have pre: "\<forall>ev \<in> set [Select TickFired, LogAttacking (t_ID t) (t_Name t),
          CallRestartMachine (App (s_Selector (e_Scenario x))) (t_ID t),
          LogSuccessfullyAttacked (t_ID t)]. \<not> probe_event ev"
    by (simp add: probe_event_def)
  obtain r2 w2 where run: "RunProbes E c (Probes (e_SteadyState x))
      (emit [LogValidatingAfterAttack] w1) = (r2, w2)"
    by (cases "RunProbes E c (Probes (e_SteadyState x)) (emit [LogValidatingAfterAttack] w1)")
  from run obtain evs where evs:
    "trace w2 = trace (emit [LogValidatingAfterAttack] w1) @ evs" "\<forall>ev \<in> set evs. probe_event ev"
    by (rule RunProbes_eventsE)
  have "result_world (loop_body E S c x ts TickFired n w) = w2"
    using att run by (simp add: result_world_def split: option.splits)
  with evs have "trace (result_world (loop_body E S c x ts TickFired n w))
               = trace w1 @ LogValidatingAfterAttack # evs"
    by simp
  with t pre evs(2)
  show "\<exists>evs0 evs. trace w1 = trace w @ evs0 @ [Sleep 2000000000]
           \<and> (\<forall>ev \<in> set evs0. \<not> probe_event ev)
           \<and> trace (result_world (loop_body E S c x ts TickFired n w))
               = trace w1 @ LogValidatingAfterAttack # evs
           \<and> (\<forall>ev \<in> set evs. probe_event ev)"
    by blast
qed

theorem settle_delay_follows_successful_attack_witness:
  "executeAttack env0 sab0 CallerCtx scenario0 [target_a] w0
     = (None, \<lparr>calls = 2, trace = [LogAttacking ''m1'' ''web-1'', CallRestartMachine ''shop'' ''m1'',
                                  LogSuccessfullyAttacked ''m1'', Sleep 2000000000]\<rparr>)
   \<and> trace (snd (executeAttack env0 sab0 CallerCtx scenario0 [target_a] w0))
       = [LogAttacking ''m1'' ''web-1'', CallRestartMachine ''shop'' ''m1'',
          LogSuccessfullyAttacked ''m1'', Sleep 2000000000]
   \<and> Sleep 2000000000 \<notin> set (trace (snd (executeAttack env0 sab_gone CallerCtx scenario0 [target_a] w0)))"
proof -
  let ?w' = "\<lparr>calls = 2, trace = [LogAttacking ''m1'' ''web-1'', CallRestartMachine ''shop'' ''m1'',
                                  LogSuccessfullyAttacked ''m1'', Sleep 2000000000]\<rparr>"
  have ok: "executeAttack env0 sab0 CallerCtx scenario0 [target_a] w0 = (None, ?w')"
    by (simp add: ex_defs run_defs Second_def)
  from settle_delay_follows_successful_attack [where E = env0 and S = sab0 and ctx = CallerCtx
      and sc = scenario0 and ts = "[target_a]" and w = w0 and r = None and w' = ?w'
      and c = CallerCtx and x = exp0 and ?w1.0 = w0 and n = 0] ok
  have "\<exists>t \<in> set [target_a]. trace ?w' = trace w0 @ [LogAttacking (t_ID t) (t_Name t),
                 CallRestartMachine (App (s_Selector scenario0)) (t_ID t),
                 LogSuccessfullyAttacked (t_ID t), Sleep 2000000000]"
    by blast
  then have tr: "trace (snd (executeAttack env0 sab0 CallerCtx scenario0 [target_a] w0))
       = [LogAttacking ''m1'' ''web-1'', CallRestartMachine ''shop'' ''m1'',
          LogSuccessfullyAttacked ''m1'', Sleep 2000000000]"
    unfolding ok by (simp add: ex_defs)
  obtain r w' where bad: "executeAttack env0 sab_gone CallerCtx scenario0 [target_a] w0 = (r, w')"
    by (cases "executeAttack env0 sab_gone CallerCtx scenario0 [target_a] w0")
  then have "r \<noteq> None"
    by (auto simp: ex_defs run_defs)
  with settle_delay_follows_successful_attack [where E = env0 and S = sab_gone
      and ctx = CallerCtx and sc = scenario0 and ts = "[target_a]" and w = w0 and r = r
      and w' = w' and c = CallerCtx and x = exp0 and ?w1.0 = w0 and n = 0] bad
  obtain evs where "trace w' = trace w0 @ evs" "\<forall>d. Sleep d \<notin> set evs"
    by blast
  then have "Sleep 2000000000 \<notin> set (trace w')"
    by (simp add: w0_def)
  with ok tr bad show ?thesis by simp
qed

text \<open>
  C6. When the machines API answers with no machine that is started or running,
  \<^verbatim>\<open>FlySaboteur.ListTargets\<close> returns the no-eligible-targets error, and it never returns an
  empty list without an error. When \<^verbatim>\<open>ListTargets\<close> returns an error, \<^verbatim>\<open>executeScenario\<close>
  returns it wrapped, whatever the \<^verbatim>\<open>select\<close> statements would have received: the world
  it leaves holds the listing call only, no receive and no restart call; and
  \<^verbatim>\<open>RunExperiment\<close> returns that error wrapped once more. This differs from targets that
  are present while the restart fails: then the loop body does not return and the loop
  goes on.
\<close>

theorem no_eligible_targets_is_fatal_at_entry:
  "(api_request_ok A ''GET'' (baseURL f @ ''/apps/'' @ app @ ''/machines'')
      \<and> api_do A k ctx ''GET'' (baseURL f @ ''/apps/'' @ app @ ''/machines'') = ApiResponse 200 body
      \<and> decode_machines A body = Some ms \<and> filter eligible ms = []
      \<longrightarrow> Fly_ListTargets f A k ctx app = Inl (ErrNoEligibleTargets app))
   \<and> Fly_ListTargets f A k ctx app \<noteq> Inr []
   \<and> (ListTargets S (calls w) ctx (App (s_Selector (e_Scenario x))) = Inl e \<longrightarrow>
        executeScenario E S ctx x sel w =
          Some (Return (Some (ErrListingTargets e)),
            tick 1 (emit [LogExecutingScenario (s_Type (e_Scenario x)) (s_Duration (e_Scenario x))
                            (s_Interval (e_Scenario x)),
                          CallListTargets (App (s_Selector (e_Scenario x)))] w)))
   \<and> (RunProbes E ctx (Probes (e_SteadyState x))
             (emit [LogStartingExperiment (e_Name x), LogDescription (e_Description x),
                    LogValidatingSteadyState] w) = (None, w2)
        \<and> ListTargets S (calls w2) ctx (App (s_Selector (e_Scenario x))) = Inl e \<longrightarrow>
        RunExperiment E S ctx x sel w =
          Some (Return (Some (ErrScenarioFailed (ErrListingTargets e))),
            tick 1 (emit [LogSteadyStateValidated,
                          LogExecutingScenario (s_Type (e_Scenario x)) (s_Duration (e_Scenario x))
                            (s_Interval (e_Scenario x)),
                          CallListTargets (App (s_Selector (e_Scenario x)))] w2)))
   \<and> (ts \<noteq> [] \<and> s_Type (e_Scenario x) = ''restart_random''
        \<and> (\<forall>t \<in> set ts. RestartMachine S (calls w + 1) c (App (s_Selector (e_Scenario x))) (t_ID t)
               \<noteq> None) \<longrightarrow>
        (\<exists>w'. loop_body E S c x ts TickFired n w = Inr (n, w')))"
proof (intro conjI impI)
  assume "api_request_ok A ''GET'' (baseURL f @ ''/apps/'' @ app @ ''/machines'')
      \<and> api_do A k ctx ''GET'' (baseURL f @ ''/apps/'' @ app @ ''/machines'') = ApiResponse 200 body
      \<and> decode_machines A body = Some ms \<and> filter eligible ms = []"
  then show "Fly_ListTargets f A k ctx app = Inl (ErrNoEligibleTargets app)"
    by (simp add: Fly_ListTargets_def Let_def)
next
  show "Fly_ListTargets f A k ctx app \<noteq> Inr []"
    by (rule Fly_ListTargets_not_empty)
next
  assume "ListTargets S (calls w) ctx (App (s_Selector (e_Scenario x))) = Inl e"
  then show "executeScenario E S ctx x sel w =
          Some (Return (Some (ErrListingTargets e)),
            tick 1 (emit [LogExecutingScenario (s_Type (e_Scenario x)) (s_Duration (e_Scenario x))
                            (s_Interval (e_Scenario x)),
                          CallListTargets (App (s_Selector (e_Scenario x)))] w))"
    by (rule executeScenario_list_error)
next
  assume a: "RunProbes E ctx (Probes (e_SteadyState x))
             (emit [LogStartingExperiment (e_Name x), LogDescription (e_Description x),
                    LogValidatingSteadyState] w) = (None, w2)
        \<and> ListTargets S (calls w2) ctx (App (s_Selector (e_Scenario x))) = Inl e"
  then have "ListTargets S (calls (emit [LogSteadyStateValidated] w2)) ctx
      (App (s_Selector (e_Scenario x))) = Inl e"
    by simp
  from executeScenario_list_error [OF this, of E sel]
  have "executeScenario E S ctx x sel (emit [LogSteadyStateValidated] w2) =
     Some (Return (Some (ErrListingTargets e)),
       tick 1 (emit [LogSteadyStateValidated,
                          LogExecutingScenario (s_Type (e_Scenario x)) (s_Duration (e_Scenario x))
                            (s_Interval (e_Scenario x)),
                          CallListTargets (App (s_Selector (e_Scenario x)))] w2))"
    by (simp add: emit_def)
  with a show "RunExperiment E S ctx x sel w =
          Some (Return (Some (ErrScenarioFailed (ErrListingTargets e))),
            tick 1 (emit [LogSteadyStateValidated,
                          LogExecutingScenario (s_Type (e_Scenario x)) (s_Duration (e_Scenario x))
                            (s_Interval (e_Scenario x)),
                          CallListTargets (App (s_Selector (e_Scenario x)))] w2))"
    by (intro RunExperiment_scenario_error) simp_all
next
  assume a: "ts \<noteq> [] \<and> s_Type (e_Scenario x) = ''restart_random''
        \<and> (\<forall>t \<in> set ts. RestartMachine S (calls w + 1) c (App (s_Selector (e_Scenario x))) (t_ID t)
               \<noteq> None)"
  obtain r w1 where att: "executeAttack E S c (e_Scenario x) ts (emit [Select TickFired] w) = (r, w1)"
    by (cases "executeAttack E S c (e_Scenario x) ts (emit [Select TickFired] w)")
  have "r \<noteq> None"
  proof
    assume "r = None"
    with att executeAttack_NoneD [of E S c "e_Scenario x" ts "emit [Select TickFired] w" w1]
    obtain t where "t \<in> set ts"
      "RestartMachine S (calls w + 1) c (App (s_Selector (e_Scenario x))) (t_ID t) = None"
      by auto
    with a show False by blast
  qed
  then obtain e where "r = Some e" by auto
  with att show "\<exists>w'. loop_body E S c x ts TickFired n w = Inr (n, w')"
    by simp
qed

theorem no_eligible_targets_is_fatal_at_entry_witness:
  "Fly_ListTargets fly0 api_stopped 0 CallerCtx ''shop'' = Inl (ErrNoEligibleTargets ''shop'')
   \<and> executeScenario env0 (fly fly0 api_stopped) CallerCtx exp0
        [TickFired, CtxDone DeadlineExceeded] w0
      = Some (Return (Some (ErrListingTargets (ErrNoEligibleTargets ''shop''))),
          \<lparr>calls = 1,
           trace = [LogExecutingScenario ''restart_random'' 5000000000 2000000000,
                    CallListTargets ''shop'']\<rparr>)
   \<and> loop_body env0 sab_gone CallerCtx exp0 [target_a] TickFired 0 w0
      = Inr (0, \<lparr>calls = 2,
                 trace = [Select TickFired, LogAttacking ''m1'' ''web-1'',
                          CallRestartMachine ''shop'' ''m1'',
                          LogAttackFailed (ErrRestartingMachine ''m1''
                             (ErrUnexpectedStatusCode 404 ''gone''))]\<rparr>)"
proof -
  note T = no_eligible_targets_is_fatal_at_entry [where A = api_stopped and f = fly0
      and app = "''shop''" and k = 0 and ctx = CallerCtx and body = "''[{...}]''"
      and ms = "[machine_stopped]" and S = "fly fly0 api_stopped" and w = w0 and x = exp0
      and e = "ErrNoEligibleTargets ''shop''" and E = env0
      and sel = "[TickFired, CtxDone DeadlineExceeded]" and ?w2.0 = w0
      and ts = "[target_a]" and c = CallerCtx and n = 0]
  have "api_request_ok api_stopped ''GET'' (baseURL fly0 @ ''/apps/'' @ ''shop'' @ ''/machines'')
      \<and> api_do api_stopped 0 CallerCtx ''GET'' (baseURL fly0 @ ''/apps/'' @ ''shop'' @ ''/machines'')
          = ApiResponse 200 ''[{...}]''
      \<and> decode_machines api_stopped ''[{...}]'' = Some [machine_stopped]
      \<and> filter eligible [machine_stopped] = []"
    by (simp add: api_stopped_def eligible_def machine_stopped_def)
  with T have list: "Fly_ListTargets fly0 api_stopped 0 CallerCtx ''shop''
      = Inl (ErrNoEligibleTargets ''shop'')"
    by blast
  then have "ListTargets (fly fly0 api_stopped) (calls w0) CallerCtx (App (s_Selector (e_Scenario exp0)))
      = Inl (ErrNoEligibleTargets ''shop'')"
    by (simp add: fly_def ex_defs)
  with T have "executeScenario env0 (fly fly0 api_stopped) CallerCtx exp0
        [TickFired, CtxDone DeadlineExceeded] w0 =
          Some (Return (Some (ErrListingTargets (ErrNoEligibleTargets ''shop''))),
            tick 1 (emit [LogExecutingScenario (s_Type (e_Scenario exp0)) (s_Duration (e_Scenario exp0))
                            (s_Interval (e_Scenario exp0)),
                          CallListTargets (App (s_Selector (e_Scenario exp0)))] w0))"
    by blast
  then have scen: "executeScenario env0 (fly fly0 api_stopped) CallerCtx exp0
        [TickFired, CtxDone DeadlineExceeded] w0
      = Some (Return (Some (ErrListingTargets (ErrNoEligibleTargets ''shop''))),
          \<lparr>calls = 1,
           trace = [LogExecutingScenario ''restart_random'' 5000000000 2000000000,
                    CallListTargets ''shop'']\<rparr>)"
    by (simp add: ex_defs emit_def tick_def Second_def)
  have body: "loop_body env0 sab_gone CallerCtx exp0 [target_a] TickFired 0 w0
      = Inr (0, \<lparr>calls = 2,
                 trace = [Select TickFired, LogAttacking ''m1'' ''web-1'',
                          CallRestartMachine ''shop'' ''m1'',
                          LogAttackFailed (ErrRestartingMachine ''m1''
                             (ErrUnexpectedStatusCode 404 ''gone''))]\<rparr>)"
    by (simp add: ex_defs run_defs)
  from list scen body show ?thesis by blast
qed

section \<open>Unsupported kinds\<close>

text \<open>
  C7, as the claim states it: an unsupported scenario type is fatal wherever it arises.
  It fails in the scenario loop: with the scenario type "foo" and a passing probe, the
  tick's \<^verbatim>\<open>executeAttack\<close> returns the unsupported-type error, the loop logs it and goes on,
  the deadline ends the loop, and \<^verbatim>\<open>RunExperiment\<close> returns nil.
\<close>

theorem RunExperiment_unsupported_scenario_counterexample:
  "RunExperiment env0 sab0 CallerCtx exp_foo [TickFired, CtxDone DeadlineExceeded] w0 =
     Some (Return None,
       \<lparr>calls = 3,
        trace = [LogStartingExperiment ''demo'', LogDescription ''unknown scenario type'',
                 LogValidatingSteadyState, HTTPDo ''ok'', LogProbePassed ''ok'',
                 LogSteadyStateValidated,
                 LogExecutingScenario ''foo'' (5 * Second) (2 * Second),
                 CallListTargets ''shop'', LogFoundTargets 1,
                 Select TickFired, LogAttackFailed (ErrUnsupportedScenarioType ''foo''),
                 Select (CtxDone DeadlineExceeded), LogDurationCompleted 0,
                 LogValidatingAfterChaos, HTTPDo ''ok'', LogProbePassed ''ok'',
                 LogSteadyStateMaintained, LogExperimentCompleted]\<rparr>)"
  by (simp add: ex_defs run_defs Second_def)

text \<open>
  C7, amended. An unsupported probe type is fatal wherever it arises: \<^verbatim>\<open>RunProbes\<close> fails
  and names the probe, so \<^verbatim>\<open>RunExperiment\<close> returns an error at the first validation and
  the loop returns an error at the validation after an attack, and \<^verbatim>\<open>Probe.Validate\<close> and
  \<^verbatim>\<open>Experiment.Validate\<close> reject it. An unsupported scenario type is fatal at
  configuration validation: \<^verbatim>\<open>Scenario.Validate\<close> and \<^verbatim>\<open>Experiment.Validate\<close> return an
  error. In the scenario loop it is handled as any failed attack: the error is logged,
  the tick is skipped and the loop goes on.
\<close>

theorem unsupported_kinds:
  "(p \<in> set probes \<and> p_Type p \<noteq> ''http'' \<longrightarrow>
      (\<exists>errs. fst (RunProbes E ctx probes w) = Some (ErrProbesFailed errs)
         \<and> ErrProbeFailed (p_Name p) (ErrUnsupportedProbeType (p_Type p)) \<in> set errs))
   \<and> (p \<in> set (Probes (e_SteadyState x)) \<and> p_Type p \<noteq> ''http'' \<longrightarrow>
        (\<exists>e w'. RunExperiment E S ctx x sel w = Some (Return (Some (ErrSteadyStateFailed e)), w')))
   \<and> (p \<in> set (Probes (e_SteadyState x)) \<and> p_Type p \<noteq> ''http''
        \<and> executeAttack E S c (e_Scenario x) ts (emit [Select TickFired] w) = (None, w1) \<longrightarrow>
        (\<exists>e w'. loop_body E S c x ts TickFired n w = Inl (Some (ErrSteadyStateLost e), w')))
   \<and> (p_Type p \<noteq> ''http'' \<longrightarrow> fst (Probe_Validate p) \<noteq> None)
   \<and> (p \<in> set (Probes (e_SteadyState x)) \<and> p_Type p \<noteq> ''http'' \<longrightarrow>
        fst (Experiment_Validate x) \<noteq> None)
   \<and> (s_Type s \<noteq> ''restart_random'' \<longrightarrow> Scenario_Validate s = Some ErrOnlyRestartRandom)
   \<and> (s_Type (e_Scenario x) \<noteq> ''restart_random'' \<longrightarrow> fst (Experiment_Validate x) \<noteq> None)
   \<and> (s_Type (e_Scenario x) \<noteq> ''restart_random'' \<longrightarrow>
        loop_body E S c x ts TickFired n w =
          Inr (n, emit [Select TickFired,
                        LogAttackFailed (ErrUnsupportedScenarioType (s_Type (e_Scenario x)))] w))"
proof (intro conjI impI)
  assume "p \<in> set probes \<and> p_Type p \<noteq> ''http''"
  then show "\<exists>errs. fst (RunProbes E ctx probes w) = Some (ErrProbesFailed errs)
         \<and> ErrProbeFailed (p_Name p) (ErrUnsupportedProbeType (p_Type p)) \<in> set errs"
    using unsupported_probe_fails_RunProbes by blast
next
  assume a: "p \<in> set (Probes (e_SteadyState x)) \<and> p_Type p \<noteq> ''http''"
  let ?w1 = "emit [LogStartingExperiment (e_Name x), LogDescription (e_Description x),
                   LogValidatingSteadyState] w"
  from a unsupported_probe_fails_RunProbes [of p "Probes (e_SteadyState x)" E ctx ?w1]
  obtain errs where "fst (RunProbes E ctx (Probes (e_SteadyState x)) ?w1) = Some (ErrProbesFailed errs)"
    by blast
  then show "\<exists>e w'. RunExperiment E S ctx x sel w = Some (Return (Some (ErrSteadyStateFailed e)), w')"
    by (cases "RunProbes E ctx (Probes (e_SteadyState x)) ?w1") (simp add: RunExperiment_def Let_def)
next
  assume a: "p \<in> set (Probes (e_SteadyState x)) \<and> p_Type p \<noteq> ''http''
        \<and> executeAttack E S c (e_Scenario x) ts (emit [Select TickFired] w) = (None, w1)"
  let ?w2 = "emit [LogValidatingAfterAttack] w1"
  from a unsupported_probe_fails_RunProbes [of p "Probes (e_SteadyState x)" E c ?w2]
  obtain errs where "fst (RunProbes E c (Probes (e_SteadyState x)) ?w2) = Some (ErrProbesFailed errs)"
    by blast
  with a show "\<exists>e w'. loop_body E S c x ts TickFired n w = Inl (Some (ErrSteadyStateLost e), w')"
    by (cases "RunProbes E c (Probes (e_SteadyState x)) ?w2") simp
next
  assume "p_Type p \<noteq> ''http''"
  then show "fst (Probe_Validate p) \<noteq> None"
    by (simp add: Probe_Validate_def)
next
  assume a: "p \<in> set (Probes (e_SteadyState x)) \<and> p_Type p \<noteq> ''http''"
  then have "fst (Probe_Validate p) \<noteq> None"
    by (simp add: Probe_Validate_def)
  with a have "fst (validate_probes 0 (Probes (e_SteadyState x))) \<noteq> None"
    using validate_probes_fails by blast
  then show "fst (Experiment_Validate x) \<noteq> None"
    by (auto simp: Experiment_Validate_def split: prod.splits option.splits)
next
  assume "s_Type s \<noteq> ''restart_random''"
  then show "Scenario_Validate s = Some ErrOnlyRestartRandom"
    by (simp add: Scenario_Validate_def)
next
  assume "s_Type (e_Scenario x) \<noteq> ''restart_random''"
  then have "Scenario_Validate (e_Scenario x) \<noteq> None"
    by (simp add: Scenario_Validate_def)
  then show "fst (Experiment_Validate x) \<noteq> None"
    by (auto simp: Experiment_Validate_def Let_def split: prod.splits option.splits)
next
  assume "s_Type (e_Scenario x) \<noteq> ''restart_random''"
  then show "loop_body E S c x ts TickFired n w =
          Inr (n, emit [Select TickFired,
                        LogAttackFailed (ErrUnsupportedScenarioType (s_Type (e_Scenario x)))] w)"
    by (simp add: executeAttack_def emit_def)
qed

theorem unsupported_kinds_witness:
  "fst (RunProbes env0 CallerCtx [probe_ok, probe_ftp] w0)
      = Some (ErrProbesFailed [ErrProbeFailed ''ftp'' (ErrUnsupportedProbeType ''ftp'')])
   \<and> fst (Probe_Validate probe_ftp) \<noteq> None
   \<and> Scenario_Validate (e_Scenario exp_foo) = Some ErrOnlyRestartRandom
   \<and> fst (Experiment_Validate exp_foo) \<noteq> None
   \<and> loop_body env0 sab0 CallerCtx exp_foo [target_a] TickFired 0 w0 =
       Inr (0, \<lparr>calls = 0,
                trace = [Select TickFired, LogAttackFailed (ErrUnsupportedScenarioType ''foo'')]\<rparr>)"
proof -
  note T = unsupported_kinds [where p = probe_ftp and probes = "[probe_ok, probe_ftp]"
      and E = env0 and ctx = CallerCtx and w = w0 and x = exp_foo and S = sab0
      and sel = "[]" and c = CallerCtx and ts = "[target_a]" and ?w1.0 = w0 and n = 0
      and s = "e_Scenario exp_foo"]
  have p: "probe_ftp \<in> set [probe_ok, probe_ftp] \<and> p_Type probe_ftp \<noteq> ''http''"
    by (simp add: probe_ftp_def)
  with T obtain errs where "fst (RunProbes env0 CallerCtx [probe_ok, probe_ftp] w0)
      = Some (ErrProbesFailed errs)"
    by blast
  then have run: "fst (RunProbes env0 CallerCtx [probe_ok, probe_ftp] w0)
      = Some (ErrProbesFailed [ErrProbeFailed ''ftp'' (ErrUnsupportedProbeType ''ftp'')])"
    by (auto simp: ex_defs probe_ftp_def run_defs)
  from T p have val: "fst (Probe_Validate probe_ftp) \<noteq> None"
    by blast
  have s: "s_Type (e_Scenario exp_foo) \<noteq> ''restart_random''"
    by (simp add: ex_defs)
  with T have sv: "Scenario_Validate (e_Scenario exp_foo) = Some ErrOnlyRestartRandom"
    and ev: "fst (Experiment_Validate exp_foo) \<noteq> None"
    and "loop_body env0 sab0 CallerCtx exp_foo [target_a] TickFired 0 w0 =
          Inr (0, emit [Select TickFired,
                        LogAttackFailed (ErrUnsupportedScenarioType (s_Type (e_Scenario exp_foo)))] w0)"
    by blast+
  then have "loop_body env0 sab0 CallerCtx exp_foo [target_a] TickFired 0 w0 =
       Inr (0, \<lparr>calls = 0,
                trace = [Select TickFired, LogAttackFailed (ErrUnsupportedScenarioType ''foo'')]\<rparr>)"
    by (simp add: ex_defs emit_def)
  with run val sv ev show ?thesis by blast
qed

section \<open>Regression after an attack, and the experiment as a whole\<close>

text \<open>
  C4. When, on some tick, the attack succeeds and the validation that follows it fails,
  the loop returns the steady-state-lost error at once, whatever would have been received
  afterwards: the world it leaves is the one the failed validation left, which since the
  attack's settle delay holds the validation line and probe events only, so no further
  attack was made. An error of the loop comes out of \<^verbatim>\<open>executeScenario\<close> as it is, and an
  error of \<^verbatim>\<open>executeScenario\<close> makes \<^verbatim>\<open>RunExperiment\<close> return an error, not nil.
\<close>

theorem regression_aborts_experiment:
  "(loop_state E S c x ts pre n w = Some (n1, w1)
      \<and> executeAttack E S c (e_Scenario x) ts (emit [Select TickFired] w1) = (None, w2)
      \<and> RunProbes E c (Probes (e_SteadyState x)) (emit [LogValidatingAfterAttack] w2) = (Some e, w3)
      \<longrightarrow> scenario_loop E S c x ts (pre @ TickFired # rest) n w
            = Some (Some (ErrSteadyStateLost e), w3)
          \<and> (\<exists>evs. trace w3 = trace w2 @ LogValidatingAfterAttack # evs
                \<and> (\<forall>ev \<in> set evs. probe_event ev)))
   \<and> (ListTargets S (calls w) ctx (App (s_Selector (e_Scenario x))) = Inr ts
        \<and> 0 < s_Interval (e_Scenario x)
        \<and> scenario_loop E S (WithTimeout ctx (s_Duration (e_Scenario x))) x ts sel 0
             (emit [LogFoundTargets (length ts)]
               (tick 1 (emit [LogExecutingScenario (s_Type (e_Scenario x))
                                (s_Duration (e_Scenario x)) (s_Interval (e_Scenario x)),
                              CallListTargets (App (s_Selector (e_Scenario x)))] w)))
           = Some (Some e, w')
        \<longrightarrow> executeScenario E S ctx x sel w = Some (Return (Some e), w'))
   \<and> (RunProbes E ctx (Probes (e_SteadyState x))
             (emit [LogStartingExperiment (e_Name x), LogDescription (e_Description x),
                    LogValidatingSteadyState] w) = (None, w2)
        \<and> executeScenario E S ctx x sel (emit [LogSteadyStateValidated] w2)
            = Some (Return (Some e), w')
        \<longrightarrow> RunExperiment E S ctx x sel w = Some (Return (Some (ErrScenarioFailed e)), w'))"
proof (intro conjI impI)
  assume a: "loop_state E S c x ts pre n w = Some (n1, w1)
      \<and> executeAttack E S c (e_Scenario x) ts (emit [Select TickFired] w1) = (None, w2)
      \<and> RunProbes E c (Probes (e_SteadyState x)) (emit [LogValidatingAfterAttack] w2) = (Some e, w3)"
  then have st: "loop_state E S c x ts pre n w = Some (n1, w1)"
    and att: "executeAttack E S c (e_Scenario x) ts (emit [Select TickFired] w1) = (None, w2)"
    and run: "RunProbes E c (Probes (e_SteadyState x)) (emit [LogValidatingAfterAttack] w2)
        = (Some e, w3)"
    by blast+
  have body: "loop_body E S c x ts TickFired n1 w1 = Inl (Some (ErrSteadyStateLost e), w3)"
    by (simp add: att run)
  show "scenario_loop E S c x ts (pre @ TickFired # rest) n w
            = Some (Some (ErrSteadyStateLost e), w3)"
    by (rule scenario_loop_SomeI [OF st body])
  from run obtain evs where
    "trace w3 = trace (emit [LogValidatingAfterAttack] w2) @ evs" "\<forall>ev \<in> set evs. probe_event ev"
    by (rule RunProbes_eventsE)
  then show "\<exists>evs. trace w3 = trace w2 @ LogValidatingAfterAttack # evs
                \<and> (\<forall>ev \<in> set evs. probe_event ev)"
    by simp
next
  assume "ListTargets S (calls w) ctx (App (s_Selector (e_Scenario x))) = Inr ts
        \<and> 0 < s_Interval (e_Scenario x)
        \<and> scenario_loop E S (WithTimeout ctx (s_Duration (e_Scenario x))) x ts sel 0
             (emit [LogFoundTargets (length ts)]
               (tick 1 (emit [LogExecutingScenario (s_Type (e_Scenario x))
                                (s_Duration (e_Scenario x)) (s_Interval (e_Scenario x)),
                              CallListTargets (App (s_Selector (e_Scenario x)))] w)))
           = Some (Some e, w')"
  then show "executeScenario E S ctx x sel w = Some (Return (Some e), w')"
    using executeScenario_loop_error [of S w ctx x ts E sel "Some e" w'] by blast
next
  assume "RunProbes E ctx (Probes (e_SteadyState x))
             (emit [LogStartingExperiment (e_Name x), LogDescription (e_Description x),
                    LogValidatingSteadyState] w) = (None, w2)
        \<and> executeScenario E S ctx x sel (emit [LogSteadyStateValidated] w2)
            = Some (Return (Some e), w')"
  then show "RunExperiment E S ctx x sel w = Some (Return (Some (ErrScenarioFailed e)), w')"
    using RunExperiment_scenario_error [of E ctx x w w2 S sel e w'] by blast
qed

theorem regression_aborts_experiment_witness:
  "RunExperiment env_regress sab0 CallerCtx exp0 [TickFired, TickFired, CtxDone DeadlineExceeded] w0
    = Some (Return (Some (ErrScenarioFailed (ErrSteadyStateLost
              (ErrProbesFailed [ErrProbeFailed ''ok'' (ErrUnexpectedStatus 500 200)])))),
        \<lparr>calls = 5,
         trace = [LogStartingExperiment ''demo'', LogDescription ''restart one machine'',
                  LogValidatingSteadyState, HTTPDo ''ok'', LogProbePassed ''ok'',
                  LogSteadyStateValidated,
                  LogExecutingScenario ''restart_random'' 5000000000 2000000000,
                  CallListTargets ''shop'', LogFoundTargets 1,
                  Select TickFired, LogAttacking ''m1'' ''web-1'',
                  CallRestartMachine ''shop'' ''m1'', LogSuccessfullyAttacked ''m1'',
                  Sleep 2000000000, LogValidatingAfterAttack, HTTPDo ''ok'']\<rparr>)"
proof -
  let ?c = "WithTimeout CallerCtx (s_Duration (e_Scenario exp0))"
  let ?e = "ErrProbesFailed [ErrProbeFailed ''ok'' (ErrUnexpectedStatus 500 200)]"
  let ?sel = "[TickFired, TickFired, CtxDone DeadlineExceeded]"
  let ?W1 = "emit [LogStartingExperiment (e_Name exp0), LogDescription (e_Description exp0),
                   LogValidatingSteadyState] w0"
  let ?W2 = "\<lparr>calls = 1,
         trace = [LogStartingExperiment ''demo'', LogDescription ''restart one machine'',
                  LogValidatingSteadyState, HTTPDo ''ok'', LogProbePassed ''ok'']\<rparr>"
  let ?W3 = "emit [LogSteadyStateValidated] ?W2"
  let ?WL = "emit [LogFoundTargets (length [target_a])]
               (tick 1 (emit [LogExecutingScenario (s_Type (e_Scenario exp0))
                                (s_Duration (e_Scenario exp0)) (s_Interval (e_Scenario exp0)),
                              CallListTargets (App (s_Selector (e_Scenario exp0)))] ?W3))"
  let ?WA = "\<lparr>calls = 4,
         trace = [LogStartingExperiment ''demo'', LogDescription ''restart one machine'',
                  LogValidatingSteadyState, HTTPDo ''ok'', LogProbePassed ''ok'',
                  LogSteadyStateValidated,
                  LogExecutingScenario ''restart_random'' 5000000000 2000000000,
                  CallListTargets ''shop'', LogFoundTargets 1,
                  Select TickFired, LogAttacking ''m1'' ''web-1'',
                  CallRestartMachine ''shop'' ''m1'', LogSuccessfullyAttacked ''m1'',
                  Sleep 2000000000]\<rparr>"
  let ?W = "\<lparr>calls = 5,
         trace = [LogStartingExperiment ''demo'', LogDescription ''restart one machine'',
                  LogValidatingSteadyState, HTTPDo ''ok'', LogProbePassed ''ok'',
                  LogSteadyStateValidated,
                  LogExecutingScenario ''restart_random'' 5000000000 2000000000,
                  CallListTargets ''shop'', LogFoundTargets 1,
                  Select TickFired, LogAttacking ''m1'' ''web-1'',
                  CallRestartMachine ''shop'' ''m1'', LogSuccessfullyAttacked ''m1'',
                  Sleep 2000000000, LogValidatingAfterAttack, HTTPDo ''ok'']\<rparr>"
  have pre: "RunProbes env_regress CallerCtx (Probes (e_SteadyState exp0)) ?W1 = (None, ?W2)"
    by (simp add: ex_defs run_defs)
  have st: "loop_state env_regress sab0 ?c exp0 [target_a] [] 0 ?WL = Some (0, ?WL)"
    by simp
  have att: "executeAttack env_regress sab0 ?c (e_Scenario exp0) [target_a]
      (emit [Select TickFired] ?WL) = (None, ?WA)"
    by (simp add: ex_defs run_defs Second_def)
  have run: "RunProbes env_regress ?c (Probes (e_SteadyState exp0))
      (emit [LogValidatingAfterAttack] ?WA) = (Some ?e, ?W)"
    by (simp add: ex_defs run_defs)
  from regression_aborts_experiment [where E = env_regress and S = sab0 and c = ?c and x = exp0
      and ts = "[target_a]" and pre = "[]" and n = 0 and w = ?WL and ?n1.0 = 0 and ?w1.0 = ?WL
      and ?w2.0 = ?WA and e = ?e and ?w3.0 = ?W and rest = "[TickFired, CtxDone DeadlineExceeded]"
      and ctx = CallerCtx and sel = ?sel and w' = ?W]
    st att run
  have "scenario_loop env_regress sab0 ?c exp0 [target_a]
      ([] @ TickFired # [TickFired, CtxDone DeadlineExceeded]) 0 ?WL
        = Some (Some (ErrSteadyStateLost ?e), ?W)"
    by blast
  then have loop: "scenario_loop env_regress sab0 ?c exp0 [target_a] ?sel 0 ?WL
        = Some (Some (ErrSteadyStateLost ?e), ?W)"
    by (simp only: append_Nil)
  have lt: "ListTargets sab0 (calls ?W3) CallerCtx (App (s_Selector (e_Scenario exp0)))
      = Inr [target_a]"
    by (simp add: sab0_def)
  have iv: "0 < s_Interval (e_Scenario exp0)"
    by (simp add: ex_defs Second_def)
  from regression_aborts_experiment [where E = env_regress and S = sab0 and c = ?c and x = exp0
      and ts = "[target_a]" and pre = "[]" and n = 0 and w = ?W3 and ?n1.0 = 0 and ?w1.0 = ?WL
      and ?w2.0 = ?WA and e = "ErrSteadyStateLost ?e" and ?w3.0 = ?W
      and rest = "[TickFired, CtxDone DeadlineExceeded]"
      and ctx = CallerCtx and sel = ?sel and w' = ?W]
    lt iv loop
  have scen: "executeScenario env_regress sab0 CallerCtx exp0 ?sel ?W3
      = Some (Return (Some (ErrSteadyStateLost ?e)), ?W)"
    by blast
  from regression_aborts_experiment [where E = env_regress and S = sab0 and c = ?c and x = exp0
      and ts = "[target_a]" and pre = "[]" and n = 0 and w = w0 and ?n1.0 = 0 and ?w1.0 = ?WL
      and ?w2.0 = ?W2 and e = "ErrSteadyStateLost ?e" and ?w3.0 = ?W
      and rest = "[TickFired, CtxDone DeadlineExceeded]"
      and ctx = CallerCtx and sel = ?sel and w' = ?W]
    pre scen
  show ?thesis by blast
qed

text \<open>
  C1. \<^verbatim>\<open>RunExperiment\<close> runs its three steps in order, each gating the next. If the first
  validation fails, it returns that error wrapped, and since it started only probe events
  were made: the scenario was never entered. If the first validation passes and
  \<^verbatim>\<open>executeScenario\<close> returns an error, it returns that error wrapped, in the world
  \<^verbatim>\<open>executeScenario\<close> left, whose events since the validation are scenario events: the
  second validation did not run. If \<^verbatim>\<open>executeScenario\<close> returns nil, the steady state is
  validated once more, and a failure of that validation is returned as an error; only
  when it passes too does \<^verbatim>\<open>RunExperiment\<close> return nil.
\<close>

theorem RunExperiment_steps_gate_each_other:
  "(RunProbes E ctx (Probes (e_SteadyState x))
       (emit [LogStartingExperiment (e_Name x), LogDescription (e_Description x),
              LogValidatingSteadyState] w) = (Some e, w2) \<longrightarrow>
      RunExperiment E S ctx x sel w = Some (Return (Some (ErrSteadyStateFailed e)), w2)
      \<and> (\<exists>evs. trace w2 = trace w @ [LogStartingExperiment (e_Name x),
                    LogDescription (e_Description x), LogValidatingSteadyState] @ evs
            \<and> (\<forall>ev \<in> set evs. probe_event ev)))
   \<and> (RunProbes E ctx (Probes (e_SteadyState x))
       (emit [LogStartingExperiment (e_Name x), LogDescription (e_Description x),
              LogValidatingSteadyState] w) = (None, w2)
      \<and> executeScenario E S ctx x sel (emit [LogSteadyStateValidated] w2)
          = Some (Return (Some e), w3) \<longrightarrow>
      RunExperiment E S ctx x sel w = Some (Return (Some (ErrScenarioFailed e)), w3)
      \<and> (\<exists>evs. trace w3 = trace w2 @ LogSteadyStateValidated # evs
            \<and> (\<forall>ev \<in> set evs. scenario_event ev)))
   \<and> (RunProbes E ctx (Probes (e_SteadyState x))
       (emit [LogStartingExperiment (e_Name x), LogDescription (e_Description x),
              LogValidatingSteadyState] w) = (None, w2)
      \<and> executeScenario E S ctx x sel (emit [LogSteadyStateValidated] w2)
          = Some (Return None, w3)
      \<and> RunProbes E ctx (Probes (e_SteadyState x)) (emit [LogValidatingAfterChaos] w3)
          = (Some e, w4) \<longrightarrow>
      RunExperiment E S ctx x sel w
        = Some (Return (Some (ErrSteadyStateFailedAfterChaos e)), w4))
   \<and> (RunProbes E ctx (Probes (e_SteadyState x))
       (emit [LogStartingExperiment (e_Name x), LogDescription (e_Description x),
              LogValidatingSteadyState] w) = (None, w2)
      \<and> executeScenario E S ctx x sel (emit [LogSteadyStateValidated] w2)
          = Some (Return None, w3)
      \<and> RunProbes E ctx (Probes (e_SteadyState x)) (emit [LogValidatingAfterChaos] w3)
          = (None, w4) \<longrightarrow>
      RunExperiment E S ctx x sel w
        = Some (Return None, emit [LogSteadyStateMaintained, LogExperimentCompleted] w4))"
proof (intro conjI impI)
  assume pre: "RunProbes E ctx (Probes (e_SteadyState x))
       (emit [LogStartingExperiment (e_Name x), LogDescription (e_Description x),
              LogValidatingSteadyState] w) = (Some e, w2)"
  then show "RunExperiment E S ctx x sel w = Some (Return (Some (ErrSteadyStateFailed e)), w2)"
    by (simp add: RunExperiment_def Let_def)
  from pre obtain evs where "trace w2 = trace (emit [LogStartingExperiment (e_Name x),
      LogDescription (e_Description x), LogValidatingSteadyState] w) @ evs"
    "\<forall>ev \<in> set evs. probe_event ev"
    by (rule RunProbes_eventsE)
  then show "\<exists>evs. trace w2 = trace w @ [LogStartingExperiment (e_Name x),
                    LogDescription (e_Description x), LogValidatingSteadyState] @ evs
            \<and> (\<forall>ev \<in> set evs. probe_event ev)"
    by auto
next
  assume a: "RunProbes E ctx (Probes (e_SteadyState x))
       (emit [LogStartingExperiment (e_Name x), LogDescription (e_Description x),
              LogValidatingSteadyState] w) = (None, w2)
      \<and> executeScenario E S ctx x sel (emit [LogSteadyStateValidated] w2)
          = Some (Return (Some e), w3)"
  then show "RunExperiment E S ctx x sel w = Some (Return (Some (ErrScenarioFailed e)), w3)"
    by (simp add: RunExperiment_def Let_def)
  from a have "executeScenario E S ctx x sel (emit [LogSteadyStateValidated] w2)
          = Some (Return (Some e), w3)"
    by blast
  from executeScenario_events [OF this]
  show "\<exists>evs. trace w3 = trace w2 @ LogSteadyStateValidated # evs
            \<and> (\<forall>ev \<in> set evs. scenario_event ev)"
    by simp
next
  assume "RunProbes E ctx (Probes (e_SteadyState x))
       (emit [LogStartingExperiment (e_Name x), LogDescription (e_Description x),
              LogValidatingSteadyState] w) = (None, w2)
      \<and> executeScenario E S ctx x sel (emit [LogSteadyStateValidated] w2)
          = Some (Return None, w3)
      \<and> RunProbes E ctx (Probes (e_SteadyState x)) (emit [LogValidatingAfterChaos] w3)
          = (Some e, w4)"
  then show "RunExperiment E S ctx x sel w
        = Some (Return (Some (ErrSteadyStateFailedAfterChaos e)), w4)"
    by (simp add: RunExperiment_def Let_def)
next
  assume "RunProbes E ctx (Probes (e_SteadyState x))
       (emit [LogStartingExperiment (e_Name x), LogDescription (e_Description x),
              LogValidatingSteadyState] w) = (None, w2)
      \<and> executeScenario E S ctx x sel (emit [LogSteadyStateValidated] w2)
          = Some (Return None, w3)
      \<and> RunProbes E ctx (Probes (e_SteadyState x)) (emit [LogValidatingAfterChaos] w3)
          = (None, w4)"
  then show "RunExperiment E S ctx x sel w
        = Some (Return None, emit [LogSteadyStateMaintained, LogExperimentCompleted] w4)"
    by (simp add: RunExperiment_def Let_def)
qed

theorem RunExperiment_steps_gate_each_other_witness:
  "RunExperiment env0 sab0 CallerCtx exp_down [TickFired, CtxDone DeadlineExceeded] w0
    = Some (Return (Some (ErrSteadyStateFailed
              (ErrProbesFailed [ErrProbeFailed ''down'' (ErrUnexpectedStatus 500 200)]))),
        \<lparr>calls = 2,
         trace = [LogStartingExperiment ''demo'', LogDescription ''a probe is down'',
                  LogValidatingSteadyState, HTTPDo ''ok'', LogProbePassed ''ok'',
                  HTTPDo ''down'']\<rparr>)
   \<and> RunExperiment env_regress sab0 CallerCtx exp0 [CtxDone DeadlineExceeded] w0
    = Some (Return (Some (ErrSteadyStateFailedAfterChaos
              (ErrProbesFailed [ErrProbeFailed ''ok'' (ErrUnexpectedStatus 500 200)]))),
        \<lparr>calls = 3,
         trace = [LogStartingExperiment ''demo'', LogDescription ''restart one machine'',
                  LogValidatingSteadyState, HTTPDo ''ok'', LogProbePassed ''ok'',
                  LogSteadyStateValidated,
                  LogExecutingScenario ''restart_random'' 5000000000 2000000000,
                  CallListTargets ''shop'', LogFoundTargets 1,
                  Select (CtxDone DeadlineExceeded), LogDurationCompleted 0,
                  LogValidatingAfterChaos, HTTPDo ''ok'']\<rparr>)"
proof -
  let ?e = "ErrProbesFailed [ErrProbeFailed ''down'' (ErrUnexpectedStatus 500 200)]"
  let ?Wd = "\<lparr>calls = 2,
         trace = [LogStartingExperiment ''demo'', LogDescription ''a probe is down'',
                  LogValidatingSteadyState, HTTPDo ''ok'', LogProbePassed ''ok'',
                  HTTPDo ''down'']\<rparr>"
  have pre_down: "RunProbes env0 CallerCtx (Probes (e_SteadyState exp_down))
       (emit [LogStartingExperiment (e_Name exp_down), LogDescription (e_Description exp_down),
              LogValidatingSteadyState] w0) = (Some ?e, ?Wd)"
    by (simp add: ex_defs run_defs)
  from RunExperiment_steps_gate_each_other [where E = env0 and S = sab0 and ctx = CallerCtx
      and x = exp_down and sel = "[TickFired, CtxDone DeadlineExceeded]" and w = w0
      and e = ?e and ?w2.0 = ?Wd and ?w3.0 = w0 and ?w4.0 = w0] pre_down
  have first: "RunExperiment env0 sab0 CallerCtx exp_down [TickFired, CtxDone DeadlineExceeded] w0
      = Some (Return (Some (ErrSteadyStateFailed ?e)), ?Wd)"
    by blast
  let ?f = "ErrProbesFailed [ErrProbeFailed ''ok'' (ErrUnexpectedStatus 500 200)]"
  let ?W2 = "\<lparr>calls = 1,
         trace = [LogStartingExperiment ''demo'', LogDescription ''restart one machine'',
                  LogValidatingSteadyState, HTTPDo ''ok'', LogProbePassed ''ok'']\<rparr>"
  let ?W3 = "\<lparr>calls = 2,
         trace = [LogStartingExperiment ''demo'', LogDescription ''restart one machine'',
                  LogValidatingSteadyState, HTTPDo ''ok'', LogProbePassed ''ok'',
                  LogSteadyStateValidated,
                  LogExecutingScenario ''restart_random'' 5000000000 2000000000,
                  CallListTargets ''shop'', LogFoundTargets 1,
                  Select (CtxDone DeadlineExceeded), LogDurationCompleted 0]\<rparr>"
  let ?W4 = "\<lparr>calls = 3,
         trace = [LogStartingExperiment ''demo'', LogDescription ''restart one machine'',
                  LogValidatingSteadyState, HTTPDo ''ok'', LogProbePassed ''ok'',
                  LogSteadyStateValidated,
                  LogExecutingScenario ''restart_random'' 5000000000 2000000000,
                  CallListTargets ''shop'', LogFoundTargets 1,
                  Select (CtxDone DeadlineExceeded), LogDurationCompleted 0,
                  LogValidatingAfterChaos, HTTPDo ''ok'']\<rparr>"
  have pre: "RunProbes env_regress CallerCtx (Probes (e_SteadyState exp0))
       (emit [LogStartingExperiment (e_Name exp0), LogDescription (e_Description exp0),
              LogValidatingSteadyState] w0) = (None, ?W2)"
    by (simp add: ex_defs run_defs)
  have scen: "executeScenario env_regress sab0 CallerCtx exp0 [CtxDone DeadlineExceeded]
      (emit [LogSteadyStateValidated] ?W2) = Some (Return None, ?W3)"
    by (simp add: ex_defs run_defs Second_def)
  have post: "RunProbes env_regress CallerCtx (Probes (e_SteadyState exp0))
      (emit [LogValidatingAfterChaos] ?W3) = (Some ?f, ?W4)"
    by (simp add: ex_defs run_defs)
  from RunExperiment_steps_gate_each_other [where E = env_regress and S = sab0 and ctx = CallerCtx
      and x = exp0 and sel = "[CtxDone DeadlineExceeded]" and w = w0
      and e = ?f and ?w2.0 = ?W2 and ?w3.0 = ?W3 and ?w4.0 = ?W4] pre scen post
  have "RunExperiment env_regress sab0 CallerCtx exp0 [CtxDone DeadlineExceeded] w0
      = Some (Return (Some (ErrSteadyStateFailedAfterChaos ?f)), ?W4)"
    by blast
  with first show ?thesis by blast
qed

end
